theory Spec2Isabelle
  imports Main "HOL-Library.AList"
begin

section \<open>Common conventions\<close>

text \<open>
  The two managers of the server keep JavaScript \<open>Map\<close> objects from strings to object
  references. A \<open>Map\<close> is an association list in insertion order: \<open>map_of\<close> is
  \<open>get\<close>, \<open>AList.update\<close> is \<open>set\<close> (in place for a present key, appended for a new
  one), \<open>AList.delete\<close> is \<open>delete\<close> and \<open>[]\<close> is the map after \<open>clear\<close>.

  Objects that live outside the maps (child processes, browsers, browser contexts) sit in
  a store indexed by reference; a fresh reference is taken from a counter, and objects are
  never freed. Every call of an external collaborator is appended to a log of events, so
  that "no signal was sent" or "nothing was spawned" are statements about that log.

  An \<open>async\<close> function returns \<open>Inr v\<close> when its promise resolves with \<open>v\<close> and
  \<open>Inl e\<close> when it rejects with the error whose rendering is \<open>e\<close>. Where a call can
  also end because an exception that nothing catches brings the server process down, the
  left side says which of the two happened.
\<close>

type_synonym ref = nat

text \<open>\<open>v || d\<close> on an optional string: \<open>undefined\<close> and the empty string are falsy.\<close>

definition or_default :: "string option \<Rightarrow> string \<Rightarrow> string" where
  "or_default v d = (case v of None \<Rightarrow> d | Some s \<Rightarrow> if s = [] then d else s)"

text \<open>A number inside a template literal: its decimal digits.\<close>

fun show_nat :: "nat \<Rightarrow> string" where
  "show_nat n =
     (if n < 10 then [''0123456789'' ! n]
      else show_nat (n div 10) @ [''0123456789'' ! (n mod 10)])"

definition show_bool :: "bool \<Rightarrow> string" where
  "show_bool b = (if b then ''true'' else ''false'')"

section \<open>WebcamManager (src/src/webcam-tools.ts)\<close>

subsection \<open>Data\<close>

text \<open>
  A \<open>ChildProcess\<close> object: the argument vector it was spawned with, the \<open>killed\<close>
  flag that a delivered \<open>kill\<close> sets, and \<open>exited\<close>: no process runs behind the
  object, because its exit has been reported (the environment step \<open>child_exit\<close>) or
  because it never started. The manager never reads or waits for the exit.
\<close>

record child_process =
  command :: "string list"
  killed :: bool
  exited :: bool

datatype event =
    Spawn ref "string list"
  | Kill ref string
  | Exec string

record webcam_state =
  ffmpegProcesses :: "(string \<times> ref) list"
  procs :: "ref \<Rightarrow> child_process"
  next_proc :: ref
  devices :: "string list"
  events :: "event list"

record WebcamStatus =
  st_device :: string
  st_exists :: bool
  st_streaming :: bool
  st_mode :: "string option"

record WebcamResult =
  success :: bool
  message :: "string option"
  error :: "string option"
  data :: "(string \<times> string option \<times> string option) option"

text \<open>
  The parameter object of \<open>startWebcam\<close> as it arrives at run time: the handler passes
  the request's arguments on unchecked (\<open>args as any\<close>), so every field may be
  missing, the mode too.
\<close>

record start_params =
  p_device :: "string option"
  p_mode :: "string option"
  p_source :: "string option"
  p_loop :: "bool option"

text \<open>
  How \<open>spawn\<close> can fail. Some failures are thrown by the call itself. Others, a missing
  or non-executable binary among them (\<open>ENOENT\<close>, \<open>EACCES\<close>), are not: the call returns
  a \<open>ChildProcess\<close> object with no process behind it, and the failure is emitted
  afterwards as an \<open>error\<close> event on that object.
\<close>

datatype spawn_failure = Throws string | Emits string

text \<open>
  What the outside world answers during one call of \<open>startWebcam\<close>: the clock, whether
  the \<open>convert\<close> command of \<open>createTextImage\<close> fails, and whether and how \<open>spawn\<close>
  fails.
\<close>

record env =
  now :: nat
  convert_error :: "string option"
  spawn_error :: "spawn_failure option"

text \<open>
  How a call can end without a result: its promise rejects with an error, or an exception
  that nobody catches is thrown while the call is suspended, which ends the server
  process, so that the caller gets no answer at all.
\<close>

datatype failure = Rejects string | Uncaught string

definition assetsDir :: string where
  "assetsDir = ''/opt/mcp-playwright/webcam-assets''"

definition no_process :: child_process where
  "no_process = \<lparr>command = [], killed = False, exited = False\<rparr>"

definition new_manager :: "string list \<Rightarrow> webcam_state" where
  "new_manager devs =
     \<lparr>ffmpegProcesses = [], procs = (\<lambda>_. no_process), next_proc = 0,
      devices = devs, events = []\<rparr>"

subsection \<open>Environment steps\<close>

text \<open>
  \<open>process.kill(sig)\<close>: when the exit of the process has not been reported, the signal
  is sent and the object's \<open>killed\<close> flag is set. When it has, the call returns
  \<open>false\<close>: nothing is sent and the flag stays as it is.
\<close>

definition kill :: "ref \<Rightarrow> string \<Rightarrow> webcam_state \<Rightarrow> webcam_state" where
  "kill p sig st =
     (if exited (procs st p) then st
      else st\<lparr>procs := (procs st)(p := (procs st p)\<lparr>killed := True\<rparr>),
              events := events st @ [Kill p sig]\<rparr>)"

text \<open>The operating system reports that process \<open>p\<close> has exited.\<close>

definition child_exit :: "ref \<Rightarrow> webcam_state \<Rightarrow> webcam_state" where
  "child_exit p st = st\<lparr>procs := (procs st)(p := (procs st p)\<lparr>exited := True\<rparr>)\<rparr>"

text \<open>
  \<open>spawn(command[0], command.slice(1), ...)\<close> when it succeeds: a new
  \<open>ChildProcess\<close> object, running.
\<close>

definition spawn :: "string list \<Rightarrow> webcam_state \<Rightarrow> webcam_state \<times> ref" where
  "spawn cmd st =
     (let p = next_proc st
      in (st\<lparr>procs := (procs st)(p := \<lparr>command = cmd, killed = False, exited = False\<rparr>),
             next_proc := Suc p,
             events := events st @ [Spawn p cmd]\<rparr>, p))"

text \<open>
  \<open>spawn\<close> when it neither throws nor starts a process: the \<open>ChildProcess\<close> object
  it returns has nothing running behind it.
\<close>

definition spawn_nothing :: "string list \<Rightarrow> webcam_state \<Rightarrow> webcam_state \<times> ref" where
  "spawn_nothing cmd st =
     (let p = next_proc st
      in (st\<lparr>procs := (procs st)(p := \<lparr>command = cmd, killed = False, exited = True\<rparr>),
             next_proc := Suc p,
             events := events st @ [Spawn p cmd]\<rparr>, p))"

text \<open>The processes that have been spawned and have not exited, with the device they write to.\<close>

definition alive_on :: "string \<Rightarrow> webcam_state \<Rightarrow> ref list" where
  "alive_on device st =
     filter (\<lambda>p. \<not> exited (procs st p) \<and> command (procs st p) \<noteq> []
                 \<and> last (command (procs st p)) = device)
       [0..<next_proc st]"

subsection \<open>Operations\<close>

definition checkDevice :: "string \<Rightarrow> webcam_state \<Rightarrow> bool" where
  "checkDevice device st = (device \<in> set (devices st))"

definition stopWebcam :: "string \<Rightarrow> webcam_state \<Rightarrow> webcam_state" where
  "stopWebcam device st =
     (case map_of (ffmpegProcesses st) device of
        None \<Rightarrow> st
      | Some process \<Rightarrow>
          (let st1 = kill process ''SIGTERM'' st
           in st1\<lparr>ffmpegProcesses := AList.delete device (ffmpegProcesses st1)\<rparr>))"

definition getStatus :: "string \<Rightarrow> webcam_state \<Rightarrow> WebcamStatus" where
  "getStatus device st =
     (let exists = checkDevice device st;
          streaming = (case map_of (ffmpegProcesses st) device of
                         None \<Rightarrow> False
                       | Some process \<Rightarrow> \<not> killed (procs st process))
      in \<lparr>st_device = device, st_exists = exists, st_streaming = streaming,
          st_mode = (if streaming then Some ''active'' else None)\<rparr>)"

definition createTextImage ::
  "env \<Rightarrow> string \<Rightarrow> webcam_state \<Rightarrow> webcam_state \<times> (string + string)" where
  "createTextImage e text st =
     (let outputPath = assetsDir @ ''/'' @ ''text_'' @ show_nat (now e) @ ''.jpg'';
          cmd = ''convert -size 640x480 xc:lightblue -fill black -pointsize 36 ''
                @ ''-gravity center -draw \"text 0,0 ''
                @ [CHR 0x27] @ text @ [CHR 0x27] @ ''\" '' @ outputPath;
          st1 = st\<lparr>events := events st @ [Exec cmd]\<rparr>
      in case convert_error e of
           Some err \<Rightarrow> (st1, Inl err)
         | None \<Rightarrow> (st1, Inr outputPath))"

definition show_opt :: "string option \<Rightarrow> string" where
  "show_opt v = (case v of None \<Rightarrow> ''undefined'' | Some s \<Rightarrow> s)"

text \<open>
  The \<open>try\<close> block at the end of \<open>startWebcam\<close>: spawn, record the process under the
  device, wait one second, report success. An exception thrown by \<open>spawn\<close> itself is
  caught and turned into a failure result. A failure that \<open>spawn\<close> emits as an
  \<open>error\<close> event arrives while the function waits, after the object has been recorded;
  no listener is attached to the object anywhere, so the event is thrown as an exception that
  nothing catches.
\<close>

definition spawn_and_record ::
  "env \<Rightarrow> start_params \<Rightarrow> string \<Rightarrow> string list \<Rightarrow> webcam_state
     \<Rightarrow> webcam_state \<times> (failure + WebcamResult)" where
  "spawn_and_record e params device cmd st =
     (case spawn_error e of
        Some (Throws err) \<Rightarrow>
          (st, Inr \<lparr>success = False, message = None,
                    error = Some (''Failed to start webcam: '' @ err), data = None\<rparr>)
      | Some (Emits err) \<Rightarrow>
          (let (st1, ffmpeg) = spawn_nothing cmd st;
               st2 = st1\<lparr>ffmpegProcesses := AList.update device ffmpeg (ffmpegProcesses st1)\<rparr>
           in (st2, Inl (Uncaught err)))
      | None \<Rightarrow>
          (let (st1, ffmpeg) = spawn cmd st;
               st2 = st1\<lparr>ffmpegProcesses := AList.update device ffmpeg (ffmpegProcesses st1)\<rparr>
           in (st2, Inr \<lparr>success = True,
                         message = Some (''Webcam started in '' @ show_opt (p_mode params)
                                         @ '' mode on '' @ device),
                         error = None,
                         data = Some (device, p_mode params, p_source params)\<rparr>)))"

text \<open>
  The \<open>switch (params.mode)\<close> of \<open>startWebcam\<close>: it leaves a command line in
  \<open>command\<close>, or (mode \<open>text\<close>) the awaited \<open>createTextImage\<close> rejects, or (no case
  matches) the function returns a failure result at once.
\<close>

datatype switch_result =
    Command "string list"
  | Rejected string
  | ReturnEarly WebcamResult

definition mode_switch ::
  "env \<Rightarrow> start_params \<Rightarrow> string \<Rightarrow> webcam_state \<Rightarrow> webcam_state \<times> switch_result" where
  "mode_switch e params device st =
     (let mode = p_mode params;
          looping = (p_loop params = Some True)
      in
      if mode = Some ''image'' then
        (st, Command
          [''ffmpeg'', ''-re'', ''-loop'', (if looping then ''1'' else ''0''),
           ''-i'', or_default (p_source params) (assetsDir @ ''/test-pattern.jpg''),
           ''-f'', ''v4l2'', ''-vcodec'', ''rawvideo'', ''-pix_fmt'', ''yuv420p'',
           ''-s'', ''640x480'', ''-r'', ''30'', device])
      else if mode = Some ''video'' then
        (st, Command
          [''ffmpeg'', ''-re'', ''-stream_loop'', (if looping then ''-1'' else ''0''),
           ''-i'', or_default (p_source params) (assetsDir @ ''/test-video.mp4''),
           ''-f'', ''v4l2'', ''-vcodec'', ''rawvideo'', ''-pix_fmt'', ''yuv420p'',
           device])
      else if mode = Some ''pattern'' then
        (st, Command
          [''ffmpeg'', ''-f'', ''lavfi'',
           ''-i'', or_default (p_source params) ''smpte'' @ ''=size=640x480:rate=30'',
           ''-f'', ''v4l2'', ''-pix_fmt'', ''yuv420p'', device])
      else if mode = Some ''color'' then
        (st, Command
          [''ffmpeg'', ''-f'', ''lavfi'',
           ''-i'', ''color=c='' @ or_default (p_source params) ''blue''
                   @ '':size=640x480:rate=30'',
           ''-f'', ''v4l2'', ''-pix_fmt'', ''yuv420p'', device])
      else if mode = Some ''screen'' then
        (st, Command
          [''ffmpeg'', ''-f'', ''x11grab'', ''-r'', ''30'', ''-s'', ''1920x1080'',
           ''-i'', or_default (p_source params) '':99'',
           ''-vf'', ''scale=640:480'', ''-f'', ''v4l2'', ''-pix_fmt'', ''yuv420p'',
           device])
      else if mode = Some ''text'' then
        (case createTextImage e (or_default (p_source params) ''MCP Playwright Webcam'') st of
           (st1, Inl err) \<Rightarrow> (st1, Rejected err)
         | (st1, Inr textImagePath) \<Rightarrow>
             (st1, Command
               [''ffmpeg'', ''-re'', ''-loop'', ''1'', ''-i'', textImagePath,
                ''-f'', ''v4l2'', ''-vcodec'', ''rawvideo'', ''-pix_fmt'', ''yuv420p'',
                ''-s'', ''640x480'', ''-r'', ''30'', device]))
      else
        (st, ReturnEarly \<lparr>success = False, message = None,
                          error = Some (''Unknown mode: '' @ show_opt mode), data = None\<rparr>))"

definition startWebcam ::
  "env \<Rightarrow> start_params \<Rightarrow> webcam_state \<Rightarrow> webcam_state \<times> (failure + WebcamResult)" where
  "startWebcam e params st0 =
     (let device = or_default (p_device params) ''/dev/video20'';
          st = stopWebcam device st0
      in case mode_switch e params device st of
           (st1, ReturnEarly result) \<Rightarrow> (st1, Inr result)
         | (st1, Rejected err) \<Rightarrow> (st1, Inl (Rejects err))
         | (st1, Command cmd) \<Rightarrow> spawn_and_record e params device cmd st1)"

text \<open>
  \<open>startWebcam\<close> called with whatever the request carried. Without a parameter object
  its first statement, which reads \<open>params.device\<close>, throws a \<open>TypeError\<close>, before
  anything else has happened.
\<close>

definition no_params :: string where
  "no_params = ''TypeError: Cannot read properties of undefined (reading device)''"

definition startWebcam_any ::
  "env \<Rightarrow> start_params option \<Rightarrow> webcam_state \<Rightarrow> webcam_state \<times> (failure + WebcamResult)" where
  "startWebcam_any e params st0 =
     (case params of
        None \<Rightarrow>
          (st0, Inl (Rejects no_params))
      | Some ps \<Rightarrow> startWebcam e ps st0)"

definition cleanup :: "webcam_state \<Rightarrow> webcam_state" where
  "cleanup st =
     (fold (\<lambda>(device, process). kill process ''SIGTERM'') (ffmpegProcesses st) st)
       \<lparr>ffmpegProcesses := []\<rparr>"

definition valid_modes :: "string list" where
  "valid_modes = [''image'', ''video'', ''pattern'', ''color'', ''screen'', ''text'']"

definition known_mode :: "string option \<Rightarrow> bool" where
  "known_mode mode = (case mode of None \<Rightarrow> False | Some m \<Rightarrow> m \<in> set valid_modes)"

text \<open>\<open>capturePhoto\<close>: one external grab, then the file is read back; any failure becomes
  a failure result. The registry is not consulted.\<close>

record capture_result =
  c_success :: bool
  c_error :: "string option"
  c_path :: "string option"
  c_base64 :: "string option"
  c_device :: "string option"

definition capturePhoto ::
  "nat \<Rightarrow> (string + string) \<Rightarrow> string \<Rightarrow> webcam_state \<Rightarrow> webcam_state \<times> capture_result" where
  "capturePhoto timestamp grab device st =
     (let outputPath = assetsDir @ ''/'' @ ''capture_'' @ show_nat timestamp @ ''.jpg'';
          st1 = st\<lparr>events := events st
                   @ [Exec (''ffmpeg -f v4l2 -i '' @ device @ '' -frames:v 1 ''
                            @ outputPath @ '' -y'')]\<rparr>
      in case grab of
           Inl err \<Rightarrow>
             (st1, \<lparr>c_success = False, c_error = Some (''Failed to capture photo: '' @ err),
                    c_path = None, c_base64 = None, c_device = None\<rparr>)
         | Inr base64 \<Rightarrow>
             (st1, \<lparr>c_success = True, c_error = None, c_path = Some outputPath,
                    c_base64 = Some base64, c_device = Some device\<rparr>))"

fun str_includes :: "string \<Rightarrow> string \<Rightarrow> bool" where
  "str_includes [] sub = (sub = [])"
| "str_includes (c # cs) sub = (take (length sub) (c # cs) = sub \<or> str_includes cs sub)"

text \<open>\<open>listDevices\<close>: the lines printed by the enumeration command, or nothing when it fails.\<close>

definition listDevices :: "string list option \<Rightarrow> string list" where
  "listDevices stdout_lines =
     (case stdout_lines of
        None \<Rightarrow> []
      | Some ls \<Rightarrow> filter (\<lambda>line. str_includes line ''/dev/video'') ls)"

section \<open>BrowserManager (src/playwright-mcp/src/index.ts)\<close>

datatype browser_type = Chromium | Firefox | Webkit

fun type_name :: "browser_type \<Rightarrow> string" where
  "type_name Chromium = ''chromium''"
| "type_name Firefox = ''firefox''"
| "type_name Webkit = ''webkit''"

text \<open>
  A \<open>Browser\<close> object with the engine that was launched for it and whether it is still
  connected to a running engine process; a \<open>BrowserContext\<close> with its browser and
  whether it is still open.
\<close>

record browser =
  engine :: browser_type
  launched_headless :: bool
  connected :: bool

record browser_context =
  ctx_browser :: ref
  ctx_open :: bool

datatype bevent =
    Launch browser_type bool
  | NewContext ref ref
  | CloseContext ref
  | CloseBrowser ref

record browser_state =
  browsers :: "(string \<times> ref) list"
  bstore :: "ref \<Rightarrow> browser"
  next_browser :: ref
  cstore :: "ref \<Rightarrow> browser_context"
  next_context :: ref
  bevents :: "bevent list"

definition new_browser_manager :: browser_state where
  "new_browser_manager =
     \<lparr>browsers = [],
      bstore = (\<lambda>_. \<lparr>engine = Chromium, launched_headless = True, connected = False\<rparr>),
      next_browser = 0,
      cstore = (\<lambda>_. \<lparr>ctx_browser = 0, ctx_open = False\<rparr>),
      next_context = 0,
      bevents = []\<rparr>"

fun is_launch :: "bevent \<Rightarrow> bool" where
  "is_launch (Launch _ _) = True"
| "is_launch _ = False"

definition launch_count :: "browser_state \<Rightarrow> nat" where
  "launch_count st = length (filter is_launch (bevents st))"

definition open_contexts :: "browser_state \<Rightarrow> ref list" where
  "open_contexts st = filter (\<lambda>c. ctx_open (cstore st c)) [0..<next_context st]"

subsection \<open>Environment steps\<close>

text \<open>
  \<open>X.launch({ headless })\<close>: the engine is asked to start; the promise settles with an
  error or with a new connected \<open>Browser\<close>.
\<close>

definition launch ::
  "string option \<Rightarrow> browser_type \<Rightarrow> bool \<Rightarrow> browser_state \<Rightarrow> browser_state \<times> (string + ref)" where
  "launch err t headless st =
     (let st1 = st\<lparr>bevents := bevents st @ [Launch t headless]\<rparr>
      in case err of
           Some e \<Rightarrow> (st1, Inl e)
         | None \<Rightarrow>
             (let b = next_browser st1
              in (st1\<lparr>bstore := (bstore st1)
                          (b := \<lparr>engine = t, launched_headless = headless, connected = True\<rparr>),
                      next_browser := Suc b\<rparr>, Inr b)))"

text \<open>The engine process behind browser \<open>b\<close> dies.\<close>

definition browser_died :: "ref \<Rightarrow> browser_state \<Rightarrow> browser_state" where
  "browser_died b st = st\<lparr>bstore := (bstore st)(b := (bstore st b)\<lparr>connected := False\<rparr>)\<rparr>"

definition browser_close :: "ref \<Rightarrow> browser_state \<Rightarrow> browser_state" where
  "browser_close b st =
     st\<lparr>bstore := (bstore st)(b := (bstore st b)\<lparr>connected := False\<rparr>),
        bevents := bevents st @ [CloseBrowser b]\<rparr>"

definition newContext :: "ref \<Rightarrow> browser_state \<Rightarrow> browser_state \<times> ref" where
  "newContext b st =
     (let c = next_context st
      in (st\<lparr>cstore := (cstore st)(c := \<lparr>ctx_browser = b, ctx_open = True\<rparr>),
             next_context := Suc c,
             bevents := bevents st @ [NewContext c b]\<rparr>, c))"

definition context_close :: "ref \<Rightarrow> browser_state \<Rightarrow> browser_state" where
  "context_close c st =
     st\<lparr>cstore := (cstore st)(c := (cstore st c)\<lparr>ctx_open := False\<rparr>),
        bevents := bevents st @ [CloseContext c]\<rparr>"

subsection \<open>getBrowser\<close>

text \<open>
  \<open>getBrowser\<close> has one suspension point, the \<open>await\<close> of the launch. The code before
  it runs without interruption when the function is called, the code after it when the
  launch has settled; other calls may run in between. \<open>getBrowser_enter\<close> is the first
  part, \<open>getBrowser_finish\<close> the second (\<open>getBrowser_resume\<close> when the call was
  suspended), and \<open>getBrowser\<close> a call that nothing interleaves with. The result is what \<open>this.browsers.get(key)\<close> yields (\<open>None\<close> is
  \<open>undefined\<close>).
\<close>

datatype getBrowser_step =
    Returned "ref option"
  | Suspended string "string + ref"

definition resource_key :: "browser_type \<Rightarrow> bool \<Rightarrow> string" where
  "resource_key t headless = type_name t @ ''-'' @ show_bool headless"

definition getBrowser_enter ::
  "string option \<Rightarrow> browser_type \<Rightarrow> bool \<Rightarrow> browser_state
     \<Rightarrow> browser_state \<times> getBrowser_step" where
  "getBrowser_enter err t headless st =
     (let key = resource_key t headless
      in if map_of (browsers st) key = None then
           (let (st1, settled) =
                  (case t of
                     Firefox \<Rightarrow> launch err Firefox headless st
                   | Webkit \<Rightarrow> launch err Webkit headless st
                   | Chromium \<Rightarrow> launch err Chromium headless st)
            in (st1, Suspended key settled))
         else (st, Returned (map_of (browsers st) key)))"

definition getBrowser_resume ::
  "string \<Rightarrow> (string + ref) \<Rightarrow> browser_state \<Rightarrow> browser_state \<times> (string + ref option)" where
  "getBrowser_resume key settled st =
     (case settled of
        Inl e \<Rightarrow> (st, Inl e)
      | Inr b \<Rightarrow>
          (let st1 = st\<lparr>browsers := AList.update key b (browsers st)\<rparr>
           in (st1, Inr (map_of (browsers st1) key))))"

definition getBrowser_finish ::
  "getBrowser_step \<Rightarrow> browser_state \<Rightarrow> browser_state \<times> (string + ref option)" where
  "getBrowser_finish step st =
     (case step of
        Returned r \<Rightarrow> (st, Inr r)
      | Suspended key settled \<Rightarrow> getBrowser_resume key settled st)"

definition getBrowser ::
  "string option \<Rightarrow> browser_type \<Rightarrow> bool \<Rightarrow> browser_state
     \<Rightarrow> browser_state \<times> (string + ref option)" where
  "getBrowser err t headless st =
     (let (st1, step) = getBrowser_enter err t headless st
      in getBrowser_finish step st1)"

text \<open>Calls of \<open>getBrowser\<close> one after the other, each with its own launch outcome.\<close>

fun getBrowser_calls ::
  "string option list \<Rightarrow> browser_type \<Rightarrow> bool \<Rightarrow> browser_state
     \<Rightarrow> browser_state \<times> (string + ref option) list" where
  "getBrowser_calls [] t headless st = (st, [])"
| "getBrowser_calls (err # errs) t headless st =
     (let (st1, r) = getBrowser err t headless st;
          (st2, rs) = getBrowser_calls errs t headless st1
      in (st2, r # rs))"

subsection \<open>cleanup\<close>

text \<open>
  \<open>for (const browser of this.browsers.values()) await browser.close();\<close> then
  \<open>this.browsers.clear()\<close>. A \<open>close\<close> that throws ends the loop and the function;
  \<open>close_error\<close> says which browsers do that.
\<close>

fun close_each ::
  "(ref \<Rightarrow> string option) \<Rightarrow> ref list \<Rightarrow> browser_state \<Rightarrow> browser_state \<times> (string + unit)" where
  "close_each close_error [] st = (st, Inr ())"
| "close_each close_error (b # bs) st =
     (case close_error b of
        Some e \<Rightarrow> (st\<lparr>bevents := bevents st @ [CloseBrowser b]\<rparr>, Inl e)
      | None \<Rightarrow> close_each close_error bs (browser_close b st))"

definition browser_cleanup ::
  "(ref \<Rightarrow> string option) \<Rightarrow> browser_state \<Rightarrow> browser_state \<times> (string + unit)" where
  "browser_cleanup close_error st =
     (case close_each close_error (map snd (browsers st)) st of
        (st1, Inl e) \<Rightarrow> (st1, Inl e)
      | (st1, Inr u) \<Rightarrow> (st1\<lparr>browsers := []\<rparr>, Inr ()))"

section \<open>Tool dispatcher (src/playwright-mcp/src/index.ts)\<close>

datatype content = Text string | Image string string

text \<open>
  What the caller gets when a call yields no content: one of the two protocol errors the
  handler raises itself, any other error the handler throws or rethrows, or nothing,
  because the server process ended while the call was in progress.
\<close>

datatype mcp_error =
    MethodNotFound string
  | InvalidParams string
  | Thrown string
  | Crashed string

record page_params =
  pp_browser :: browser_type
  pp_headless :: bool

text \<open>
  A tool call as the handler sees it: the tool name, what the zod schema of that tool
  makes of the arguments (the rendering of the \<open>ZodError\<close>, or the parsed parameters with
  defaults filled in, of which the browser type and the headless flag matter here), and
  the arguments read field by field, as the webcam handlers do after \<open>args as any\<close>.
  The protocol lets a request come without arguments: then \<open>args\<close> is \<open>None\<close>
  (\<open>undefined\<close>), and reading a field of it throws a \<open>TypeError\<close>.
\<close>

record request =
  tool :: string
  parsed :: "string + page_params"
  args :: "start_params option"


text \<open>
  What the outside world answers during one tool call. \<open>page_outcome\<close> stands for all
  page operations of a handler between \<open>context.newPage()\<close> and \<open>context.close()\<close>:
  either they run through and produce the content of the response (\<open>Inr\<close>), or an
  exception leaves the handler (\<open>Inl\<close>). The exceptions that \<open>extract_data\<close> and
  \<open>fill_form\<close> catch themselves, inside their loops and around the submit click, do not
  leave the handler and belong to the first case; \<open>page.goto\<close> is outside every such
  \<open>try\<close> in all six handlers.
\<close>

record call_env =
  launch_error :: "string option"
  context_error :: "string option"
  page_outcome :: "string + content list"
  webcam :: env
  grab :: "string + string"
  v4l2 :: "string list option"
  generated :: string

record server_state =
  bm :: browser_state
  wm :: webcam_state

definition nl :: string where
  "nl = [CHR 0x0A]"

fun join_lines :: "string list \<Rightarrow> string" where
  "join_lines [] = []"
| "join_lines [x] = x"
| "join_lines (x # y # ys) = x @ nl @ join_lines (y # ys)"

text \<open>
  The body shared by the six page-based cases of the handler:
  \<open>getBrowser\<close>, \<open>browser.newContext()\<close>, \<open>context.newPage()\<close>, the page operations,
  \<open>context.close()\<close>, \<open>return\<close>. There is no \<open>finally\<close>: an exception leaves at the
  point where it is thrown.
\<close>

definition page_call ::
  "call_env \<Rightarrow> page_params \<Rightarrow> browser_state \<Rightarrow> browser_state \<times> (string + content list)" where
  "page_call ce params st =
     (case getBrowser (launch_error ce) (pp_browser params) (pp_headless params) st of
        (st1, Inl e) \<Rightarrow> (st1, Inl e)
      | (st1, Inr None) \<Rightarrow>
          (st1, Inl ''TypeError: Cannot read properties of undefined (reading newContext)'')
      | (st1, Inr (Some b)) \<Rightarrow>
          (case context_error ce of
             Some e \<Rightarrow> (st1, Inl e)
           | None \<Rightarrow>
               (let (st2, context) = newContext b st1
                in case page_outcome ce of
                     Inl e \<Rightarrow> (st2, Inl e)
                   | Inr result \<Rightarrow> (context_close context st2, Inr result))))"

definition page_handler ::
  "call_env \<Rightarrow> request \<Rightarrow> server_state \<Rightarrow> server_state \<times> (mcp_error + content list)" where
  "page_handler ce req st =
     (case parsed req of
        Inl z \<Rightarrow> (st, Inl (InvalidParams (''Invalid parameters: '' @ z)))
      | Inr params \<Rightarrow>
          (case page_call ce params (bm st) of
             (b, Inl e) \<Rightarrow> (st\<lparr>bm := b\<rparr>, Inl (Thrown e))
           | (b, Inr result) \<Rightarrow> (st\<lparr>bm := b\<rparr>, Inr result)))"

definition start_webcam_text :: "WebcamResult \<Rightarrow> string" where
  "start_webcam_text result =
     (if success result then
        show_opt (message result) @ nl
        @ ''Device: '' @ (case data result of None \<Rightarrow> ''undefined'' | Some (d, m, s) \<Rightarrow> d) @ nl
        @ ''Mode: '' @ (case data result of None \<Rightarrow> ''undefined''
                        | Some (d, m, s) \<Rightarrow> show_opt m) @ nl
        @ ''Source: '' @ (case data result of None \<Rightarrow> ''default''
                          | Some (d, m, s) \<Rightarrow> or_default s ''default'')
      else ''Failed to start webcam: '' @ show_opt (error result))"

definition call_tool ::
  "call_env \<Rightarrow> request \<Rightarrow> server_state \<Rightarrow> server_state \<times> (mcp_error + content list)" where
  "call_tool ce req st =
     (let name = tool req
      in
      if name = ''navigate_to_page'' then page_handler ce req st
      else if name = ''take_screenshot'' then page_handler ce req st
      else if name = ''extract_data'' then page_handler ce req st
      else if name = ''fill_form'' then page_handler ce req st
      else if name = ''test_website'' then page_handler ce req st
      else if name = ''run_script'' then page_handler ce req st
      else if name = ''generate_test'' then
        (case parsed req of
           Inl z \<Rightarrow> (st, Inl (InvalidParams (''Invalid parameters: '' @ z)))
         | Inr params \<Rightarrow> (st, Inr [Text (generated ce)]))
      else if name = ''start_webcam'' then
        (case startWebcam_any (webcam ce) (args req) (wm st) of
           (w, Inl (Rejects e)) \<Rightarrow> (st\<lparr>wm := w\<rparr>, Inl (Thrown e))
         | (w, Inl (Uncaught e)) \<Rightarrow> (st\<lparr>wm := w\<rparr>, Inl (Crashed e))
         | (w, Inr result) \<Rightarrow> (st\<lparr>wm := w\<rparr>, Inr [Text (start_webcam_text result)]))
      else if name = ''stop_webcam'' then
        (case args req of
           None \<Rightarrow> (st, Inl (Thrown no_params))
         | Some params \<Rightarrow>
             (let device = or_default (p_device params) ''/dev/video20''
              in (st\<lparr>wm := stopWebcam device (wm st)\<rparr>,
                  Inr [Text (''Webcam stopped on '' @ device)])))
      else if name = ''capture_webcam_photo'' then
        (case args req of
           None \<Rightarrow> (st, Inl (Thrown no_params))
         | Some params \<Rightarrow>
             (let device = (case p_device params of None \<Rightarrow> ''/dev/video20'' | Some d \<Rightarrow> d);
                  (w, result) = capturePhoto (now (webcam ce)) (grab ce) device (wm st)
              in if c_success result then
                   (st\<lparr>wm := w\<rparr>,
                    Inr [Text (''Photo captured successfully'' @ nl
                               @ ''Path: '' @ show_opt (c_path result) @ nl
                               @ ''Device: '' @ show_opt (c_device result)),
                         Image (show_opt (c_base64 result)) ''image/jpeg''])
                 else
                   (st\<lparr>wm := w\<rparr>,
                    Inr [Text (''Failed to capture photo: '' @ show_opt (c_error result))])))
      else if name = ''webcam_status'' then
        (case args req of
           None \<Rightarrow> (st, Inl (Thrown no_params))
         | Some params \<Rightarrow>
             (let device = (case p_device params of None \<Rightarrow> ''/dev/video20'' | Some d \<Rightarrow> d);
                  status = getStatus device (wm st)
              in (st, Inr [Text (''Webcam Status:'' @ nl
                                 @ ''Device: '' @ st_device status @ nl
                                 @ ''Exists: '' @ show_bool (st_exists status) @ nl
                                 @ ''Streaming: '' @ show_bool (st_streaming status) @ nl
                                 @ ''Mode: '' @ or_default (st_mode status) ''none'')])))
      else if name = ''list_webcams'' then
        (let devs = listDevices (v4l2 ce)
         in (st, Inr [Text (if length devs > 0
                            then ''Available webcam devices:'' @ nl @ join_lines devs
                            else ''No webcam devices found'')]))
      else (st, Inl (MethodNotFound (''Unknown tool: '' @ name))))"

definition page_tools :: "string list" where
  "page_tools =
     [''navigate_to_page'', ''take_screenshot'', ''extract_data'', ''fill_form'',
      ''test_website'', ''run_script'']"

subsection \<open>Shutdown\<close>

text \<open>
  The \<open>SIGINT\<close> and \<open>SIGTERM\<close> handlers: \<open>await browserManager.cleanup()\<close>, then
  \<open>await webcamManager.cleanup()\<close>, then \<open>process.exit(0)\<close>. The handler completes
  (\<open>Inr ()\<close>) when it reaches the exit.
\<close>

definition on_signal ::
  "(ref \<Rightarrow> string option) \<Rightarrow> server_state \<Rightarrow> server_state \<times> (string + unit)" where
  "on_signal close_error st =
     (case browser_cleanup close_error (bm st) of
        (b, Inl e) \<Rightarrow> (st\<lparr>bm := b\<rparr>, Inl e)
      | (b, Inr u) \<Rightarrow> (st\<lparr>bm := b, wm := cleanup (wm st)\<rparr>, Inr ()))"

definition new_server :: "string list \<Rightarrow> server_state" where
  "new_server devs = \<lparr>bm = new_browser_manager, wm = new_manager devs\<rparr>"

section \<open>Concrete scenarios\<close>

text \<open>
  States and inputs used to run the model: a manager on which \<open>dev0\<close> was started in
  mode \<open>color\<close>, then restarted in mode \<open>pattern\<close>, with every external call succeeding.
\<close>

definition env_ok :: env where
  "env_ok = \<lparr>now = 1700000000000, convert_error = None, spawn_error = None\<rparr>"

definition start_args :: "string \<Rightarrow> string \<Rightarrow> string \<Rightarrow> start_params" where
  "start_args device mode source =
     \<lparr>p_device = Some device, p_mode = Some mode, p_source = Some source, p_loop = None\<rparr>"

definition dev0_color :: webcam_state where
  "dev0_color =
     fst (startWebcam env_ok (start_args ''dev0'' ''color'' ''blue'') (new_manager [''dev0'']))"

definition dev0_pattern :: webcam_state where
  "dev0_pattern =
     fst (startWebcam env_ok (start_args ''dev0'' ''pattern'' ''smpte'') dev0_color)"

definition webcam_request :: "string \<Rightarrow> start_params \<Rightarrow> request" where
  "webcam_request name a = \<lparr>tool = name, parsed = Inl [], args = Some a\<rparr>"

text \<open>A request that names a tool and carries no arguments.\<close>

definition bare_request :: "string \<Rightarrow> request" where
  "bare_request name = \<lparr>tool = name, parsed = Inl ''Required'', args = None\<rparr>"

text \<open>A \<open>start_webcam\<close> call on \<open>dev0\<close> whose arguments have no mode.\<close>

definition modeless_request :: request where
  "modeless_request =
     webcam_request ''start_webcam''
       \<lparr>p_device = Some ''dev0'', p_mode = None, p_source = None, p_loop = None\<rparr>"

definition quiet_call :: call_env where
  "quiet_call =
     \<lparr>launch_error = None, context_error = None, page_outcome = Inr [Text ''ok''],
      webcam = env_ok, grab = Inl ''no device'', v4l2 = None, generated = []\<rparr>"

definition dev0_server :: server_state where
  "dev0_server = \<lparr>bm = new_browser_manager, wm = dev0_color\<rparr>"

text \<open>
  The encoder binary is missing: \<open>spawn\<close> returns an object and the failure is emitted
  on it afterwards.
\<close>

definition env_no_ffmpeg :: env where
  "env_no_ffmpeg = \<lparr>now = 1700000000000, convert_error = None,
                     spawn_error = Some (Emits ''Error: spawn ffmpeg ENOENT'')\<rparr>"

definition no_ffmpeg_call :: call_env where
  "no_ffmpeg_call = quiet_call\<lparr>webcam := env_no_ffmpeg\<rparr>"

text \<open>The call of \<open>spawn\<close> itself throws.\<close>

definition env_spawn_throws :: env where
  "env_spawn_throws = \<lparr>now = 1700000000000, convert_error = None,
                        spawn_error = Some (Throws ''TypeError: invalid options'')\<rparr>"

text \<open>A manager whose recorded process for \<open>dev0\<close> has exited on its own.\<close>

definition dev0_crashed :: webcam_state where
  "dev0_crashed = child_exit 0 dev0_color"

text \<open>A \<open>start_webcam\<close> call on \<open>dev0\<close> with a mode outside the closed set.\<close>

definition bogus_request :: request where
  "bogus_request = webcam_request ''start_webcam'' (start_args ''dev0'' ''bogus'' ''x'')"

text \<open>
  Two callers ask for the same key while the pool is empty: both enter before either
  launch has settled, then each resumes.
\<close>

definition two_callers :: "browser_state \<times> (string + ref option) \<times> (string + ref option)" where
  "two_callers =
     (let (s1, a) = getBrowser_enter None Chromium True new_browser_manager;
          (s2, b) = getBrowser_enter None Chromium True s1;
          (s3, ra) = getBrowser_finish a s2;
          (s4, rb) = getBrowser_finish b s3
      in (s4, ra, rb))"

text \<open>A pool whose only browser was launched and has since died.\<close>

definition one_browser :: browser_state where
  "one_browser = fst (getBrowser None Chromium True new_browser_manager)"

definition dead_pool :: browser_state where
  "dead_pool = browser_died 0 one_browser"

text \<open>A \<open>run_script\<close> call whose page operation throws, and one that succeeds.\<close>

definition run_script_request :: request where
  "run_script_request =
     \<lparr>tool = ''run_script'',
      parsed = Inr \<lparr>pp_browser = Chromium, pp_headless = True\<rparr>,
      args = None\<rparr>"

definition failing_page :: call_env where
  "failing_page = quiet_call\<lparr>page_outcome := Inl ''TimeoutError: page.goto: Timeout''\<rparr>"

text \<open>A server with one pooled browser and one stream, and a shutdown where every close succeeds.\<close>

definition busy_server :: server_state where
  "busy_server = \<lparr>bm = one_browser, wm = dev0_color\<rparr>"

definition closes_fine :: "ref \<Rightarrow> string option" where
  "closes_fine b = None"

section \<open>Properties of the webcam manager\<close>

subsection \<open>stopWebcam\<close>

lemma stopWebcam_absent:
  "map_of (ffmpegProcesses st) d = None \<Longrightarrow> stopWebcam d st = st"
  by (simp add: stopWebcam_def)

lemma stopWebcam_lookup:
  "map_of (ffmpegProcesses (stopWebcam d st)) d' =
     (if d' = d then None else map_of (ffmpegProcesses st) d')"
  by (cases "map_of (ffmpegProcesses st) d")
     (auto simp: stopWebcam_def kill_def Let_def delete_conv')

lemma stopWebcam_frame:
  "next_proc (stopWebcam d st) = next_proc st"
  "devices (stopWebcam d st) = devices st"
  "exited (procs (stopWebcam d st) q) = exited (procs st q)"
  "command (procs (stopWebcam d st) q) = command (procs st q)"
  by (cases "map_of (ffmpegProcesses st) d"; simp add: stopWebcam_def kill_def Let_def)+

lemma stopWebcam_events:
  "events (stopWebcam d st) =
     events st @
     (case map_of (ffmpegProcesses st) d of
        None \<Rightarrow> []
      | Some p \<Rightarrow> if exited (procs st p) then [] else [Kill p ''SIGTERM''])"
  by (cases "map_of (ffmpegProcesses st) d"; simp add: stopWebcam_def kill_def Let_def)

lemma stopWebcam_killed:
  "map_of (ffmpegProcesses st) d = Some p \<Longrightarrow> \<not> exited (procs st p) \<Longrightarrow>
     killed (procs (stopWebcam d st) p)"
  by (simp add: stopWebcam_def kill_def Let_def)

subsection \<open>The mode switch\<close>

lemma mode_switch_unknown:
  "\<not> known_mode (p_mode params) \<Longrightarrow>
   mode_switch e params device st =
     (st, ReturnEarly \<lparr>success = False, message = None,
           error = Some (''Unknown mode: '' @ show_opt (p_mode params)), data = None\<rparr>)"
  by (cases "p_mode params"; simp add: mode_switch_def known_mode_def valid_modes_def Let_def)

lemma mode_switch_frame:
  "ffmpegProcesses (fst (mode_switch e params device st)) = ffmpegProcesses st"
  "procs (fst (mode_switch e params device st)) = procs st"
  "next_proc (fst (mode_switch e params device st)) = next_proc st"
  "devices (fst (mode_switch e params device st)) = devices st"
  by (simp_all add: mode_switch_def createTextImage_def Let_def split: option.splits)

lemma mode_switch_events:
  "events (fst (mode_switch e params device st)) = events st
   \<or> (\<exists>c. events (fst (mode_switch e params device st)) = events st @ [Exec c])"
  by (simp add: mode_switch_def createTextImage_def Let_def split: option.splits)

lemma mode_switch_valid:
  "known_mode (p_mode params) \<Longrightarrow>
     (\<exists>cmd. snd (mode_switch e params device st) = Command cmd \<and> cmd \<noteq> [] \<and> last cmd = device)
     \<or> (p_mode params = Some ''text'' \<and>
         (\<exists>err. convert_error e = Some err \<and> snd (mode_switch e params device st) = Rejected err))"
  by (auto simp: mode_switch_def known_mode_def valid_modes_def createTextImage_def Let_def split: option.splits)

lemma mode_switch_Command:
  assumes "mode_switch e params device st = (st1, Command cmd)"
  shows "known_mode (p_mode params) \<and> cmd \<noteq> [] \<and> last cmd = device"
proof (cases "known_mode (p_mode params)")
  case True
  from mode_switch_valid[OF True, of e device st] assms True show ?thesis by auto
next
  case False
  from mode_switch_unknown[OF False, of e device st] assms show ?thesis by simp
qed

subsection \<open>startWebcam\<close>

text \<open>
  A start that reports success went through the switch to a command line and through a
  spawn that did not throw.
\<close>

lemma startWebcam_success:
  assumes "startWebcam e params st0 = (st', Inr r)" and "success r"
  shows "\<exists>st1 cmd. mode_switch e params (or_default (p_device params) ''/dev/video20'')
                      (stopWebcam (or_default (p_device params) ''/dev/video20'') st0)
                    = (st1, Command cmd)
            \<and> spawn_error e = None
            \<and> st' = (fst (spawn cmd st1))
                  \<lparr>ffmpegProcesses :=
                     AList.update (or_default (p_device params) ''/dev/video20'')
                       (next_proc st1) (ffmpegProcesses st1)\<rparr>"
proof -
  let ?d = "or_default (p_device params) ''/dev/video20''"
  obtain st1 sr where sw: "mode_switch e params ?d (stopWebcam ?d st0) = (st1, sr)"
    by (cases "mode_switch e params ?d (stopWebcam ?d st0)")
  show ?thesis
  proof (cases sr)
    case (Command cmd)
    with sw assms show ?thesis
      by (auto simp: startWebcam_def spawn_and_record_def spawn_def spawn_nothing_def Let_def
               split: option.splits spawn_failure.splits)
  next
    case (Rejected err)
    with sw assms show ?thesis by (simp add: startWebcam_def Let_def)
  next
    case (ReturnEarly res)
    with sw assms have "r = res" by (simp add: startWebcam_def Let_def)
    moreover have "\<not> success res"
    proof (cases "known_mode (p_mode params)")
      case True
      from mode_switch_valid[OF True, of e ?d "stopWebcam ?d st0"] sw ReturnEarly
      show ?thesis by auto
    next
      case False
      from mode_switch_unknown[OF False, of e ?d "stopWebcam ?d st0"] sw ReturnEarly
      show ?thesis by auto
    qed
    ultimately show ?thesis using assms by simp
  qed
qed

lemma startWebcam_success_state:
  assumes "startWebcam e params st0 = (st', Inr r)" and "success r"
  shows "map_of (ffmpegProcesses st') (or_default (p_device params) ''/dev/video20'')
           = Some (next_proc st0)"
    and "next_proc st' = Suc (next_proc st0)"
    and "killed (procs st' (next_proc st0)) = False"
    and "devices st' = devices st0"
    and "x \<noteq> next_proc st0 \<Longrightarrow> exited (procs st' x) = exited (procs st0 x)"
proof -
  let ?d = "or_default (p_device params) ''/dev/video20''"
  from startWebcam_success[OF assms] obtain st1 cmd where
    sw: "mode_switch e params ?d (stopWebcam ?d st0) = (st1, Command cmd)"
    and st': "st' = (fst (spawn cmd st1))
                \<lparr>ffmpegProcesses := AList.update ?d (next_proc st1) (ffmpegProcesses st1)\<rparr>"
    by blast
  from sw have st1: "st1 = fst (mode_switch e params ?d (stopWebcam ?d st0))" by simp
  have n: "next_proc st1 = next_proc st0" and p: "procs st1 = procs (stopWebcam ?d st0)"
    and dv: "devices st1 = devices st0"
    by (simp_all add: st1 mode_switch_frame stopWebcam_frame)
  show "map_of (ffmpegProcesses st') ?d = Some (next_proc st0)"
    by (simp add: st' update_conv' n)
  show "next_proc st' = Suc (next_proc st0)"
    by (simp add: st' spawn_def Let_def n)
  show "killed (procs st' (next_proc st0)) = False"
    by (simp add: st' spawn_def Let_def n)
  show "devices st' = devices st0"
    by (simp add: st' spawn_def Let_def dv)
  show "exited (procs st' x) = exited (procs st0 x)" if "x \<noteq> next_proc st0"
    using that by (simp add: st' spawn_def Let_def n p stopWebcam_frame)
qed

subsection \<open>The scenarios, evaluated\<close>

lemma dev0_color_fields:
  "ffmpegProcesses dev0_color = [(''dev0'', 0)]"
  "next_proc dev0_color = Suc 0"
  "devices dev0_color = [''dev0'']"
  "killed (procs dev0_color 0) = False"
  "exited (procs dev0_color 0) = False"
  "last (command (procs dev0_color 0)) = ''dev0''"
  "command (procs dev0_color 0) \<noteq> []"
  by (simp_all add: dev0_color_def startWebcam_def mode_switch_def spawn_and_record_def
        spawn_def stopWebcam_def new_manager_def env_ok_def start_args_def or_default_def
        Let_def)

lemma dev0_pattern_result:
  "startWebcam env_ok (start_args ''dev0'' ''pattern'' ''smpte'') dev0_color =
     (dev0_pattern,
      Inr \<lparr>success = True, message = Some ''Webcam started in pattern mode on dev0'',
           error = None, data = Some (''dev0'', Some ''pattern'', Some ''smpte'')\<rparr>)"
  by (simp add: dev0_pattern_def startWebcam_def mode_switch_def spawn_and_record_def
        spawn_def env_ok_def start_args_def or_default_def show_opt_def Let_def
        split: prod.splits)

lemma dev0_crashed_fields:
  "ffmpegProcesses dev0_crashed = [(''dev0'', 0)]"
  "exited (procs dev0_crashed 0) = True"
  "killed (procs dev0_crashed 0) = False"
  "events dev0_crashed = events dev0_color"
  "next_proc dev0_crashed = Suc 0"
  by (simp_all add: dev0_crashed_def child_exit_def dev0_color_fields)

lemma dev0_pattern_fields:
  "ffmpegProcesses dev0_pattern = [(''dev0'', Suc 0)]"
  "next_proc dev0_pattern = Suc (Suc 0)"
  "exited (procs dev0_pattern 0) = False"
  "exited (procs dev0_pattern (Suc 0)) = False"
  "killed (procs dev0_pattern 0) = True"
  "killed (procs dev0_pattern (Suc 0)) = False"
  "last (command (procs dev0_pattern 0)) = ''dev0''"
  "last (command (procs dev0_pattern (Suc 0))) = ''dev0''"
  "command (procs dev0_pattern 0) \<noteq> []"
  "command (procs dev0_pattern (Suc 0)) \<noteq> []"
  "events dev0_pattern = events dev0_color @
      [Kill 0 ''SIGTERM'',
       Spawn (Suc 0) [''ffmpeg'', ''-f'', ''lavfi'', ''-i'', ''smpte=size=640x480:rate=30'',
                ''-f'', ''v4l2'', ''-pix_fmt'', ''yuv420p'', ''dev0'']]"
  by (simp_all add: dev0_pattern_def dev0_color_fields startWebcam_def mode_switch_def
        spawn_and_record_def spawn_def stopWebcam_def kill_def env_ok_def start_args_def
        or_default_def Let_def)

text \<open>Only when the operating system reports the exit of the first process is one producer left.\<close>

lemma dev0_pattern_after_exit:
  "alive_on ''dev0'' (child_exit 0 dev0_pattern) = [Suc 0]"
  by (simp add: alive_on_def child_exit_def dev0_pattern_fields)

section \<open>Properties of the browser manager\<close>

lemma getBrowser_hit:
  "map_of (browsers st) (resource_key t h) = Some b \<Longrightarrow> getBrowser err t h st = (st, Inr (Some b))"
  by (simp add: getBrowser_def getBrowser_enter_def getBrowser_finish_def Let_def)

lemma launch_ok:
  "launch None t h st =
     (st\<lparr>bevents := bevents st @ [Launch t h],
         bstore := (bstore st)(next_browser st := \<lparr>engine = t, launched_headless = h, connected = True\<rparr>),
         next_browser := Suc (next_browser st)\<rparr>, Inr (next_browser st))"
  by (simp add: launch_def Let_def)

lemma getBrowser_miss:
  assumes "map_of (browsers st) (resource_key t h) = None"
  shows "getBrowser None t h st =
     (st\<lparr>bevents := bevents st @ [Launch t h],
         bstore := (bstore st)(next_browser st := \<lparr>engine = t, launched_headless = h, connected = True\<rparr>),
         next_browser := Suc (next_browser st),
         browsers := AList.update (resource_key t h) (next_browser st) (browsers st)\<rparr>,
      Inr (Some (next_browser st)))"
  using assms
  by (cases t)
     (simp_all add: getBrowser_def getBrowser_enter_def getBrowser_finish_def
        getBrowser_resume_def launch_ok Let_def update_conv')

lemma getBrowser_calls_hit:
  "map_of (browsers st) (resource_key t h) = Some b \<Longrightarrow>
     getBrowser_calls errs t h st = (st, replicate (length errs) (Inr (Some b)))"
  by (induction errs) (simp_all add: getBrowser_hit)

lemma one_browser_fields:
  "browsers one_browser = [(''chromium-true'', 0)]"
  "next_browser one_browser = Suc 0"
  "bevents one_browser = [Launch Chromium True]"
  "connected (bstore one_browser 0)"
  "next_context one_browser = 0"
  by (simp_all add: one_browser_def getBrowser_def getBrowser_enter_def getBrowser_finish_def
        getBrowser_resume_def launch_def new_browser_manager_def resource_key_def
        show_bool_def Let_def)

lemma dead_pool_fields:
  "browsers dead_pool = [(''chromium-true'', 0)]"
  "next_browser dead_pool = Suc 0"
  "bevents dead_pool = [Launch Chromium True]"
  "\<not> connected (bstore dead_pool 0)"
  by (simp_all add: dead_pool_def browser_died_def one_browser_fields)

section \<open>Properties of the dispatcher and of shutdown\<close>

lemma call_tool_page:
  "tool req \<in> set page_tools \<Longrightarrow> call_tool ce req st = page_handler ce req st"
  by (auto simp: call_tool_def page_tools_def Let_def)

lemma filter_upt_cong:
  "(\<And>c. c < n \<Longrightarrow> P c = Q c) \<Longrightarrow> filter P [0..<n] = filter Q [0..<n]"
  by (rule filter_cong) simp_all

lemma open_contexts_newContext:
  "open_contexts (fst (newContext b s)) = open_contexts s @ [next_context s]"
proof -
  have "filter (\<lambda>c. ctx_open (((cstore s)(next_context s := \<lparr>ctx_browser = b, ctx_open = True\<rparr>)) c))
          [0..<next_context s]
        = filter (\<lambda>c. ctx_open (cstore s c)) [0..<next_context s]"
    by (rule filter_upt_cong) simp
  then show ?thesis
    by (simp add: open_contexts_def newContext_def Let_def)
qed

lemma open_contexts_close_new:
  "open_contexts (context_close (next_context s) (fst (newContext b s))) = open_contexts s"
proof -
  have "filter (\<lambda>c. ctx_open (((cstore s)(next_context s := \<lparr>ctx_browser = b, ctx_open = False\<rparr>)) c))
          [0..<next_context s]
        = filter (\<lambda>c. ctx_open (cstore s c)) [0..<next_context s]"
    by (rule filter_upt_cong) simp
  then show ?thesis
    by (simp add: open_contexts_def newContext_def context_close_def Let_def)
qed

lemma first_getBrowser:
  "getBrowser None Chromium True new_browser_manager = (one_browser, Inr (Some 0))"
  by (simp add: one_browser_def getBrowser_def getBrowser_enter_def getBrowser_finish_def
        getBrowser_resume_def launch_def new_browser_manager_def resource_key_def
        show_bool_def Let_def)

lemma close_each_completes:
  "(\<forall>b\<in>set bs. close_error b = None) \<Longrightarrow> snd (close_each close_error bs st) = Inr ()"
  by (induction bs arbitrary: st) simp_all

lemma close_each_keeps_dead:
  "\<not> connected (bstore st b) \<Longrightarrow> \<not> connected (bstore (fst (close_each close_error bs st)) b)"
proof (induction bs arbitrary: st)
  case Nil
  then show ?case by simp
next
  case (Cons a bs)
  show ?case
  proof (cases "close_error a")
    case None
    have "\<not> connected (bstore (browser_close a st) b)"
      using Cons.prems by (simp add: browser_close_def)
    from Cons.IH[OF this] None show ?thesis by simp
  next
    case (Some e)
    with Cons.prems show ?thesis by simp
  qed
qed

lemma close_each_closes:
  "close_each close_error bs st = (st', Inr ()) \<Longrightarrow> b \<in> set bs \<Longrightarrow> \<not> connected (bstore st' b)"
proof (induction bs arbitrary: st)
  case Nil
  then show ?case by simp
next
  case (Cons a bs)
  from Cons.prems(1) have none: "close_error a = None"
    by (cases "close_error a") simp_all
  with Cons.prems(1) have rest: "close_each close_error bs (browser_close a st) = (st', Inr ())"
    by simp
  show ?case
  proof (cases "b \<in> set bs")
    case True
    from Cons.IH[OF rest True] show ?thesis .
  next
    case False
    with Cons.prems(2) have "b = a" by simp
    then have "\<not> connected (bstore (browser_close a st) b)"
      by (simp add: browser_close_def)
    from close_each_keeps_dead[OF this, of close_error bs] rest show ?thesis by simp
  qed
qed

lemma kill_keeps_killed:
  "killed (procs st q) \<Longrightarrow> killed (procs (kill p sig st) q)"
  by (simp add: kill_def)

lemma kill_keeps_exited:
  "exited (procs (kill p sig st) q) = exited (procs st q)"
  by (simp add: kill_def)

lemma fold_kill_keeps_killed:
  "killed (procs st q) \<Longrightarrow>
     killed (procs (fold (\<lambda>(device, process). kill process sig) reg st) q)"
  by (induction reg arbitrary: st) (auto simp: kill_keeps_killed)

lemma fold_kill_kills:
  "q \<in> snd ` set reg \<Longrightarrow> \<not> exited (procs st q) \<Longrightarrow>
     killed (procs (fold (\<lambda>(device, process). kill process sig) reg st) q)"
proof (induction reg arbitrary: st)
  case Nil
  then show ?case by simp
next
  case (Cons x reg)
  obtain d p where x: "x = (d, p)" by (cases x)
  show ?case
  proof (cases "q = p")
    case True
    have "killed (procs (kill p sig st) q)" using True Cons.prems(2) by (simp add: kill_def)
    from fold_kill_keeps_killed[OF this] show ?thesis by (simp add: x)
  next
    case False
    with Cons.prems x have "q \<in> snd ` set reg" by auto
    moreover have "\<not> exited (procs (kill p sig st) q)"
      using Cons.prems(2) by (simp add: kill_keeps_exited)
    ultimately show ?thesis using Cons.IH by (simp add: x)
  qed
qed

lemma cleanup_state:
  "ffmpegProcesses (cleanup st) = []"
  "q \<in> snd ` set (ffmpegProcesses st) \<Longrightarrow> \<not> exited (procs st q) \<Longrightarrow>
     killed (procs (cleanup st) q)"
  by (simp_all add: cleanup_def fold_kill_kills)

lemma busy_shutdown:
  "on_signal closes_fine busy_server =
     (busy_server\<lparr>bm := (browser_close 0 one_browser)\<lparr>browsers := []\<rparr>,
                  wm := cleanup dev0_color\<rparr>, Inr ())"
  by (simp add: on_signal_def browser_cleanup_def busy_server_def closes_fine_def
        one_browser_fields)

section \<open>The claims\<close>

text \<open>
  C9. For a device with no process recorded in the registry, \<open>stopWebcam\<close> changes
  nothing at all: the registry, the processes and the log of signals stay as they were.
  For a device with a recorded process \<open>p\<close>, it removes the entry of that device and
  leaves the entries of other devices alone; if \<open>p\<close> is still running (its exit has not
  been reported) it sends \<open>SIGTERM\<close> to \<open>p\<close>, and if \<open>p\<close> has already exited no
  signal is sent. The \<open>stop_webcam\<close> tool, called with an arguments object, stops the
  device named there (or the default device) and answers with an ordinary text response
  in either case; called without any arguments it throws before it reaches
  \<open>stopWebcam\<close>.
\<close>

theorem stopWebcam_noop_or_removes:
  "(map_of (ffmpegProcesses st) d = None \<longrightarrow> stopWebcam d st = st)
   \<and> (map_of (ffmpegProcesses st) d = Some p \<longrightarrow>
        map_of (ffmpegProcesses (stopWebcam d st)) d = None
        \<and> (d' \<noteq> d \<longrightarrow>
             map_of (ffmpegProcesses (stopWebcam d st)) d' = map_of (ffmpegProcesses st) d')
        \<and> (\<not> exited (procs st p) \<longrightarrow>
             events (stopWebcam d st) = events st @ [Kill p ''SIGTERM'']
             \<and> killed (procs (stopWebcam d st) p))
        \<and> (exited (procs st p) \<longrightarrow> events (stopWebcam d st) = events st))
   \<and> (tool req = ''stop_webcam'' \<and> args req = Some a
        \<and> or_default (p_device a) ''/dev/video20'' = d \<longrightarrow>
        call_tool ce req s =
          (s\<lparr>wm := stopWebcam d (wm s)\<rparr>, Inr [Text (''Webcam stopped on '' @ d)]))
   \<and> (tool req = ''stop_webcam'' \<and> args req = None \<longrightarrow>
        call_tool ce req s = (s, Inl (Thrown no_params)))"
proof (intro conjI impI)
  assume "map_of (ffmpegProcesses st) d = None"
  then show "stopWebcam d st = st" by (rule stopWebcam_absent)
next
  show "map_of (ffmpegProcesses (stopWebcam d st)) d = None"
    by (simp add: stopWebcam_lookup)
next
  assume "d' \<noteq> d"
  then show "map_of (ffmpegProcesses (stopWebcam d st)) d' = map_of (ffmpegProcesses st) d'"
    by (simp add: stopWebcam_lookup)
next
  assume "map_of (ffmpegProcesses st) d = Some p" and "\<not> exited (procs st p)"
  then show "events (stopWebcam d st) = events st @ [Kill p ''SIGTERM'']"
    by (simp add: stopWebcam_events)
next
  assume "map_of (ffmpegProcesses st) d = Some p" and "\<not> exited (procs st p)"
  then show "killed (procs (stopWebcam d st) p)" by (rule stopWebcam_killed)
next
  assume "map_of (ffmpegProcesses st) d = Some p" and "exited (procs st p)"
  then show "events (stopWebcam d st) = events st"
    by (simp add: stopWebcam_events)
next
  assume "tool req = ''stop_webcam'' \<and> args req = Some a
        \<and> or_default (p_device a) ''/dev/video20'' = d"
  then show "call_tool ce req s =
          (s\<lparr>wm := stopWebcam d (wm s)\<rparr>, Inr [Text (''Webcam stopped on '' @ d)])"
    by (simp add: call_tool_def Let_def)
next
  assume "tool req = ''stop_webcam'' \<and> args req = None"
  then show "call_tool ce req s = (s, Inl (Thrown no_params))"
    by (simp add: call_tool_def Let_def)
qed

theorem stopWebcam_noop_or_removes_witness:
  "stopWebcam ''dev2'' dev0_color = dev0_color
   \<and> events (stopWebcam ''dev0'' dev0_color) = events dev0_color @ [Kill 0 ''SIGTERM'']
   \<and> killed (procs (stopWebcam ''dev0'' dev0_color) 0)
   \<and> map_of (ffmpegProcesses (stopWebcam ''dev0'' dev0_color)) ''dev0'' = None
   \<and> events (stopWebcam ''dev0'' dev0_crashed) = events dev0_crashed
   \<and> map_of (ffmpegProcesses (stopWebcam ''dev0'' dev0_crashed)) ''dev0'' = None
   \<and> call_tool quiet_call (webcam_request ''stop_webcam'' (start_args ''dev2'' [] []))
        dev0_server
       = (dev0_server, Inr [Text ''Webcam stopped on dev2''])
   \<and> call_tool quiet_call (bare_request ''stop_webcam'') dev0_server
       = (dev0_server, Inl (Thrown no_params))"
proof -
  let ?r = "webcam_request ''stop_webcam'' (start_args ''dev2'' [] [])"
  let ?b = "bare_request ''stop_webcam''"
  have a: "map_of (ffmpegProcesses dev0_color) ''dev2'' = None"
    and b: "map_of (ffmpegProcesses dev0_color) ''dev0'' = Some 0"
    and b': "map_of (ffmpegProcesses dev0_crashed) ''dev0'' = Some 0"
    and x: "\<not> exited (procs dev0_color 0)" and x': "exited (procs dev0_crashed 0)"
    by (simp_all add: dev0_color_fields dev0_crashed_fields)
  have c: "tool ?r = ''stop_webcam'' \<and> args ?r = Some (start_args ''dev2'' [] [])
           \<and> or_default (p_device (start_args ''dev2'' [] [])) ''/dev/video20'' = ''dev2''"
    by (simp add: webcam_request_def start_args_def or_default_def)
  have n: "tool ?b = ''stop_webcam'' \<and> args ?b = None"
    by (simp add: bare_request_def)
  have w: "wm dev0_server = dev0_color" by (simp add: dev0_server_def)
  note t1 = stopWebcam_noop_or_removes[of dev0_color "''dev2''" 0 "''dev0''" ?r
              "start_args ''dev2'' [] []" quiet_call dev0_server]
  note t2 = stopWebcam_noop_or_removes[of dev0_color "''dev0''" 0 "''dev2''" ?b
              "start_args ''dev2'' [] []" quiet_call dev0_server]
  note t3 = stopWebcam_noop_or_removes[of dev0_crashed "''dev0''" 0 "''dev2''" ?b
              "start_args ''dev2'' [] []" quiet_call dev0_server]
  have "stopWebcam ''dev2'' dev0_color = dev0_color"
    using t1 a by blast
  moreover have "call_tool quiet_call ?r dev0_server = (dev0_server, Inr [Text ''Webcam stopped on dev2''])"
    using t1 a c w by simp
  moreover have "events (stopWebcam ''dev0'' dev0_color) = events dev0_color @ [Kill 0 ''SIGTERM'']
      \<and> killed (procs (stopWebcam ''dev0'' dev0_color) 0)
      \<and> map_of (ffmpegProcesses (stopWebcam ''dev0'' dev0_color)) ''dev0'' = None"
    using t2 b x by blast
  moreover have "call_tool quiet_call ?b dev0_server = (dev0_server, Inl (Thrown no_params))"
    using t2 n by blast
  moreover have "events (stopWebcam ''dev0'' dev0_crashed) = events dev0_crashed
      \<and> map_of (ffmpegProcesses (stopWebcam ''dev0'' dev0_crashed)) ''dev0'' = None"
    using t3 b' x' by blast
  ultimately show ?thesis by blast
qed

text \<open>
  C10. Right after \<open>stopWebcam d\<close> the registry has no entry for \<open>d\<close>; \<open>getStatus d\<close>
  then reports \<open>streaming = false\<close> and \<open>mode = null\<close>, with \<open>exists\<close> still the answer
  of the device check; and a second \<open>stopWebcam d\<close> changes nothing.
\<close>

theorem stopWebcam_then_status:
  "map_of (ffmpegProcesses (stopWebcam d st)) d = None
   \<and> getStatus d (stopWebcam d st) =
       \<lparr>st_device = d, st_exists = checkDevice d st, st_streaming = False, st_mode = None\<rparr>
   \<and> stopWebcam d (stopWebcam d st) = stopWebcam d st"
proof -
  have l: "map_of (ffmpegProcesses (stopWebcam d st)) d = None"
    by (simp add: stopWebcam_lookup)
  have "getStatus d (stopWebcam d st) =
       \<lparr>st_device = d, st_exists = checkDevice d st, st_streaming = False, st_mode = None\<rparr>"
    by (simp add: getStatus_def checkDevice_def Let_def l stopWebcam_frame)
  with l stopWebcam_absent[OF l] show ?thesis by simp
qed

theorem stopWebcam_then_status_witness:
  "map_of (ffmpegProcesses (stopWebcam ''dev0'' dev0_color)) ''dev0'' = None
   \<and> getStatus ''dev0'' (stopWebcam ''dev0'' dev0_color) =
       \<lparr>st_device = ''dev0'', st_exists = True, st_streaming = False, st_mode = None\<rparr>
   \<and> stopWebcam ''dev0'' (stopWebcam ''dev0'' dev0_color) = stopWebcam ''dev0'' dev0_color"
  using stopWebcam_then_status[of "''dev0''" dev0_color]
  by (simp add: checkDevice_def dev0_color_fields)

text \<open>
  What \<open>getStatus\<close> reports after a \<open>startWebcam\<close> that succeeded: \<open>streaming = true\<close>
  and the fixed mode \<open>active\<close>, whatever mode the stream was started in. The registry
  keeps the process only, not the mode.
\<close>

lemma getStatus_after_start_reports_active:
  assumes "startWebcam e params st = (st', Inr r)" and "success r"
  shows "getStatus (or_default (p_device params) ''/dev/video20'') st' =
           \<lparr>st_device = or_default (p_device params) ''/dev/video20'',
            st_exists = checkDevice (or_default (p_device params) ''/dev/video20'') st,
            st_streaming = True,
            st_mode = Some ''active''\<rparr>"
  using startWebcam_success_state(1,3,4)[OF assms]
  by (simp add: getStatus_def checkDevice_def Let_def)

lemma getStatus_after_start_reports_active_example:
  "getStatus ''dev0'' dev0_pattern =
     \<lparr>st_device = ''dev0'', st_exists = True, st_streaming = True, st_mode = Some ''active''\<rparr>"
  using getStatus_after_start_reports_active[OF dev0_pattern_result]
  by (simp add: start_args_def or_default_def checkDevice_def dev0_color_fields)

text \<open>
  C4. After a successful start in mode \<open>m\<close> the status should report streaming with
  mode \<open>m\<close>. The code does not: \<open>dev0\<close> is started in mode \<open>color\<close> and then in
  mode \<open>pattern\<close>, both starts succeed, and \<open>getStatus\<close> reports streaming with the
  mode \<open>active\<close> instead of \<open>pattern\<close>.
\<close>

theorem getStatus_mode_is_not_declared_mode:
  "snd (startWebcam env_ok (start_args ''dev0'' ''pattern'' ''smpte'') dev0_color) =
     Inr \<lparr>success = True, message = Some ''Webcam started in pattern mode on dev0'',
          error = None, data = Some (''dev0'', Some ''pattern'', Some ''smpte'')\<rparr>
   \<and> st_streaming (getStatus ''dev0'' dev0_pattern)
   \<and> st_mode (getStatus ''dev0'' dev0_pattern) = Some ''active''
   \<and> st_mode (getStatus ''dev0'' dev0_pattern) \<noteq> Some ''pattern''"
  by (simp add: dev0_pattern_result dev0_pattern_fields getStatus_def Let_def)

text \<open>
  C2 (as the code has it). A \<open>startWebcam\<close> that reports success leaves exactly the
  newly spawned process recorded for the device. If a process \<open>p\<close> was recorded for the
  device before, it was sent \<open>SIGTERM\<close> (unless its exit had been reported already, when
  there is nothing to signal) and dropped from the registry before the spawn (the log
  reads: kill, possibly the text image command, spawn). The call does not wait
  for anything to exit: the exit status of every older process is what it was before the
  call.
\<close>

theorem startWebcam_replaces_without_waiting:
  assumes "startWebcam e params st = (st', Inr r)" and "success r"
  shows "map_of (ffmpegProcesses st') (or_default (p_device params) ''/dev/video20'')
           = Some (next_proc st)
       \<and> next_proc st' = Suc (next_proc st)
       \<and> (\<exists>evs cmd.
             events st' =
               events st
               @ (case map_of (ffmpegProcesses st) (or_default (p_device params) ''/dev/video20'') of
                    None \<Rightarrow> []
                  | Some p \<Rightarrow> if exited (procs st p) then [] else [Kill p ''SIGTERM''])
               @ evs @ [Spawn (next_proc st) cmd]
             \<and> (evs = [] \<or> (\<exists>c. evs = [Exec c]))
             \<and> cmd \<noteq> [] \<and> last cmd = or_default (p_device params) ''/dev/video20'')
       \<and> (x \<noteq> next_proc st \<longrightarrow> exited (procs st' x) = exited (procs st x))"
proof -
  let ?d = "or_default (p_device params) ''/dev/video20''"
  let ?s = "stopWebcam ?d st"
  from startWebcam_success[OF assms] obtain st1 cmd where
    sw: "mode_switch e params ?d ?s = (st1, Command cmd)"
    and st': "st' = (fst (spawn cmd st1))
                \<lparr>ffmpegProcesses := AList.update ?d (next_proc st1) (ffmpegProcesses st1)\<rparr>"
    by blast
  from sw have st1: "st1 = fst (mode_switch e params ?d ?s)" by simp
  have n: "next_proc st1 = next_proc st"
    by (simp add: st1 mode_switch_frame stopWebcam_frame)
  from mode_switch_events[of e params ?d ?s] obtain evs where
    evs: "events st1 = events ?s @ evs" "evs = [] \<or> (\<exists>c. evs = [Exec c])"
    unfolding st1 by auto
  have ks: "events ?s = events st @ (case map_of (ffmpegProcesses st) ?d of
                    None \<Rightarrow> []
                  | Some p \<Rightarrow> if exited (procs st p) then [] else [Kill p ''SIGTERM''])"
    by (rule stopWebcam_events)
  have ev: "events st' = events st
               @ (case map_of (ffmpegProcesses st) ?d of
                    None \<Rightarrow> []
                  | Some p \<Rightarrow> if exited (procs st p) then [] else [Kill p ''SIGTERM''])
               @ evs @ [Spawn (next_proc st) cmd]"
    by (simp add: st' spawn_def Let_def n evs(1) ks)
  from mode_switch_Command[OF sw] have c: "cmd \<noteq> []" "last cmd = ?d" by simp_all
  from ev evs(2) c startWebcam_success_state(1,2,5)[OF assms]
  show ?thesis by blast
qed

theorem startWebcam_replaces_without_waiting_witness:
  "map_of (ffmpegProcesses dev0_pattern) ''dev0'' = Some 1
   \<and> next_proc dev0_pattern = 2
   \<and> exited (procs dev0_pattern 0) = exited (procs dev0_color 0)"
  using startWebcam_replaces_without_waiting[OF dev0_pattern_result, of 0]
  by (simp add: start_args_def or_default_def dev0_color_fields)

text \<open>
  C2, the claim as stated, fails: \<open>dev0\<close> is started twice and nothing lets the first
  process exit in between. The second start sends \<open>SIGTERM\<close> to process 0 and spawns
  process 1 at once; when it returns, process 0 has not exited, and two processes
  that write to \<open>dev0\<close> are alive.
\<close>

theorem startWebcam_old_process_still_alive:
  "map_of (ffmpegProcesses dev0_color) ''dev0'' = Some 0
   \<and> events dev0_pattern = events dev0_color @
      [Kill 0 ''SIGTERM'',
       Spawn 1 [''ffmpeg'', ''-f'', ''lavfi'', ''-i'', ''smpte=size=640x480:rate=30'',
                ''-f'', ''v4l2'', ''-pix_fmt'', ''yuv420p'', ''dev0'']]
   \<and> \<not> exited (procs dev0_pattern 0)
   \<and> alive_on ''dev0'' dev0_pattern = [0, 1]"
  by (simp add: dev0_color_fields dev0_pattern_fields alive_on_def)

text \<open>
  What the \<open>try\<close> block does catch: when the call of \<open>spawn\<close> itself throws (and the
  switch got as far as a command line), \<open>startWebcam\<close> returns a failure result
  carrying the error, spawns nothing and records nothing for the device. A result with
  \<open>success = true\<close> is returned only when \<open>spawn\<close> did not fail in either way.
\<close>

lemma startWebcam_spawn_throw_is_failure:
  "(spawn_error e = Some (Throws err) \<and> known_mode (p_mode params)
      \<and> (p_mode params = Some ''text'' \<longrightarrow> convert_error e = None) \<longrightarrow>
      snd (startWebcam e params st) =
        Inr \<lparr>success = False, message = None,
             error = Some (''Failed to start webcam: '' @ err), data = None\<rparr>
      \<and> next_proc (fst (startWebcam e params st)) = next_proc st
      \<and> map_of (ffmpegProcesses (fst (startWebcam e params st)))
            (or_default (p_device params) ''/dev/video20'') = None)
   \<and> (startWebcam e params st = (st', Inr r) \<and> success r \<longrightarrow> spawn_error e = None)"
proof (intro conjI impI)
  let ?d = "or_default (p_device params) ''/dev/video20''"
  let ?s = "stopWebcam ?d st"
  assume h: "spawn_error e = Some (Throws err) \<and> known_mode (p_mode params)
      \<and> (p_mode params = Some ''text'' \<longrightarrow> convert_error e = None)"
  with mode_switch_valid[of params e ?d ?s] obtain cmd where
    c: "snd (mode_switch e params ?d ?s) = Command cmd" by auto
  obtain st1 where sw: "mode_switch e params ?d ?s = (st1, Command cmd)"
    using c by (cases "mode_switch e params ?d ?s") simp
  then have st1: "st1 = fst (mode_switch e params ?d ?s)" by simp
  have r: "startWebcam e params st =
       (st1, Inr \<lparr>success = False, message = None,
             error = Some (''Failed to start webcam: '' @ err), data = None\<rparr>)"
    using h sw by (simp add: startWebcam_def spawn_and_record_def Let_def)
  show "snd (startWebcam e params st) =
        Inr \<lparr>success = False, message = None,
             error = Some (''Failed to start webcam: '' @ err), data = None\<rparr>"
    by (simp add: r)
  show "next_proc (fst (startWebcam e params st)) = next_proc st"
    by (simp add: r st1 mode_switch_frame stopWebcam_frame)
  show "map_of (ffmpegProcesses (fst (startWebcam e params st))) ?d = None"
    by (simp add: r st1 mode_switch_frame stopWebcam_lookup)
next
  assume "startWebcam e params st = (st', Inr r) \<and> success r"
  then have a: "startWebcam e params st = (st', Inr r)" and b: "success r" by simp_all
  from startWebcam_success[OF a b] show "spawn_error e = None" by blast
qed

lemma startWebcam_spawn_throw_example:
  "snd (startWebcam env_spawn_throws (start_args ''dev0'' ''color'' ''blue'')
          (new_manager [''dev0''])) =
        Inr \<lparr>success = False, message = None,
             error = Some ''Failed to start webcam: TypeError: invalid options'', data = None\<rparr>"
proof -
  have h: "spawn_error env_spawn_throws = Some (Throws ''TypeError: invalid options'')
           \<and> known_mode (p_mode (start_args ''dev0'' ''color'' ''blue''))
           \<and> (p_mode (start_args ''dev0'' ''color'' ''blue'') = Some ''text''
                \<longrightarrow> convert_error env_spawn_throws = None)"
    by (simp add: env_spawn_throws_def start_args_def known_mode_def valid_modes_def)
  note t = startWebcam_spawn_throw_is_failure[of env_spawn_throws
             "''TypeError: invalid options''" "start_args ''dev0'' ''color'' ''blue''"
             "new_manager [''dev0'']", THEN conjunct1, THEN mp, OF h]
  from t show ?thesis by simp
qed

text \<open>
  A failure that \<open>spawn\<close> emits instead of throwing is never turned into a failure
  result: the object is recorded for the device and the call ends with the uncaught error.
\<close>

lemma startWebcam_spawn_emit_is_uncaught:
  assumes "spawn_error e = Some (Emits err)" and "known_mode (p_mode params)"
    and "p_mode params = Some ''text'' \<longrightarrow> convert_error e = None"
  shows "snd (startWebcam e params st) = Inl (Uncaught err)
         \<and> map_of (ffmpegProcesses (fst (startWebcam e params st)))
              (or_default (p_device params) ''/dev/video20'') = Some (next_proc st)"
proof -
  let ?d = "or_default (p_device params) ''/dev/video20''"
  let ?s = "stopWebcam ?d st"
  from assms mode_switch_valid[of params e ?d ?s] obtain cmd where
    c: "snd (mode_switch e params ?d ?s) = Command cmd" by auto
  obtain st1 where sw: "mode_switch e params ?d ?s = (st1, Command cmd)"
    using c by (cases "mode_switch e params ?d ?s") simp
  then have st1: "st1 = fst (mode_switch e params ?d ?s)" by simp
  have n: "next_proc st1 = next_proc st"
    by (simp add: st1 mode_switch_frame stopWebcam_frame)
  have r: "startWebcam e params st =
       ((fst (spawn_nothing cmd st1))
          \<lparr>ffmpegProcesses := AList.update ?d (next_proc st1) (ffmpegProcesses st1)\<rparr>,
        Inl (Uncaught err))"
    using assms(1) sw
    by (simp add: startWebcam_def spawn_and_record_def spawn_nothing_def Let_def)
  show ?thesis by (simp add: r update_conv' n)
qed

text \<open>
  C5. A spawn that fails should make the start return a launch failure, and the claim
  names the missing encoder binary as its example. The code does not do that there: the
  \<open>try\<close> block only catches what \<open>spawn\<close> throws, and a missing binary is reported
  by an \<open>error\<close> event on the returned object, to which nothing listens. \<open>dev0\<close> is
  started in mode \<open>color\<close> on a machine without the binary: the object is recorded for
  \<open>dev0\<close> as if a stream were running, no failure result is returned, and the call ends
  with the uncaught error, so that the \<open>start_webcam\<close> tool gives no answer.
\<close>

theorem startWebcam_missing_binary_not_reported:
  "spawn_error env_no_ffmpeg = Some (Emits ''Error: spawn ffmpeg ENOENT'')
   \<and> snd (startWebcam env_no_ffmpeg (start_args ''dev0'' ''color'' ''blue'')
            (new_manager [''dev0'']))
       = Inl (Uncaught ''Error: spawn ffmpeg ENOENT'')
   \<and> map_of (ffmpegProcesses
               (fst (startWebcam env_no_ffmpeg (start_args ''dev0'' ''color'' ''blue'')
                      (new_manager [''dev0''])))) ''dev0'' = Some 0
   \<and> exited (procs (fst (startWebcam env_no_ffmpeg (start_args ''dev0'' ''color'' ''blue'')
                            (new_manager [''dev0'']))) 0)
   \<and> snd (call_tool no_ffmpeg_call
             (webcam_request ''start_webcam'' (start_args ''dev0'' ''color'' ''blue''))
             (new_server [''dev0'']))
       = Inl (Crashed ''Error: spawn ffmpeg ENOENT'')"
  by (simp add: env_no_ffmpeg_def no_ffmpeg_call_def quiet_call_def webcam_request_def
        start_args_def new_server_def new_manager_def call_tool_def startWebcam_any_def
        startWebcam_def mode_switch_def spawn_and_record_def spawn_nothing_def
        stopWebcam_def or_default_def Let_def)

text \<open>
  C3 (as the code has it). A \<open>start_webcam\<close> call whose arguments carry a mode outside
  the closed set, or no mode, answers with the text
  \<open>Failed to start webcam: Unknown mode: m\<close>; it does not touch the browser pool and
  spawns no process; but before looking at the mode it has stopped the stream recorded
  for the device, if there was one (entry removed, \<open>SIGTERM\<close> sent to a process still
  running). A call without any arguments throws at the first statement of
  \<open>startWebcam\<close> and changes nothing.
\<close>

theorem start_webcam_unknown_mode_stops_first:
  "(tool req = ''start_webcam'' \<and> args req = Some a \<and> \<not> known_mode (p_mode a) \<longrightarrow>
      call_tool ce req st =
        (st\<lparr>wm := stopWebcam (or_default (p_device a) ''/dev/video20'') (wm st)\<rparr>,
         Inr [Text (''Failed to start webcam: Unknown mode: '' @ show_opt (p_mode a))])
      \<and> bm (fst (call_tool ce req st)) = bm st
      \<and> next_proc (wm (fst (call_tool ce req st))) = next_proc (wm st)
      \<and> events (wm (fst (call_tool ce req st))) =
          events (wm st) @
          (case map_of (ffmpegProcesses (wm st)) (or_default (p_device a) ''/dev/video20'') of
             None \<Rightarrow> []
           | Some p \<Rightarrow> if exited (procs (wm st) p) then [] else [Kill p ''SIGTERM''])
      \<and> map_of (ffmpegProcesses (wm (fst (call_tool ce req st))))
           (or_default (p_device a) ''/dev/video20'') = None)
   \<and> (tool req = ''start_webcam'' \<and> args req = None \<longrightarrow>
        call_tool ce req st = (st, Inl (Thrown no_params)))"
proof (intro conjI impI)
  let ?d = "or_default (p_device a) ''/dev/video20''"
  assume h: "tool req = ''start_webcam'' \<and> args req = Some a \<and> \<not> known_mode (p_mode a)"
  then have unknown: "\<not> known_mode (p_mode a)" by simp
  have sw: "startWebcam (webcam ce) a (wm st) =
              (stopWebcam ?d (wm st),
               Inr \<lparr>success = False, message = None,
                    error = Some (''Unknown mode: '' @ show_opt (p_mode a)), data = None\<rparr>)"
    by (simp add: startWebcam_def Let_def mode_switch_unknown[OF unknown])
  show eq: "call_tool ce req st =
           (st\<lparr>wm := stopWebcam ?d (wm st)\<rparr>,
            Inr [Text (''Failed to start webcam: Unknown mode: '' @ show_opt (p_mode a))])"
    using h
    by (simp add: call_tool_def startWebcam_any_def Let_def sw start_webcam_text_def
          show_opt_def)
  show "bm (fst (call_tool ce req st)) = bm st" by (simp add: eq)
  show "next_proc (wm (fst (call_tool ce req st))) = next_proc (wm st)"
    by (simp add: eq stopWebcam_frame)
  show "events (wm (fst (call_tool ce req st))) =
          events (wm st) @
          (case map_of (ffmpegProcesses (wm st)) ?d of
             None \<Rightarrow> []
           | Some p \<Rightarrow> if exited (procs (wm st) p) then [] else [Kill p ''SIGTERM''])"
    by (simp add: eq stopWebcam_events)
  show "map_of (ffmpegProcesses (wm (fst (call_tool ce req st)))) ?d = None"
    by (simp add: eq stopWebcam_lookup)
next
  assume "tool req = ''start_webcam'' \<and> args req = None"
  then show "call_tool ce req st = (st, Inl (Thrown no_params))"
    by (simp add: call_tool_def startWebcam_any_def Let_def)
qed

theorem start_webcam_unknown_mode_stops_first_witness:
  "call_tool quiet_call bogus_request dev0_server =
     (dev0_server\<lparr>wm := stopWebcam ''dev0'' dev0_color\<rparr>,
      Inr [Text ''Failed to start webcam: Unknown mode: bogus''])
   \<and> bm (fst (call_tool quiet_call bogus_request dev0_server)) = new_browser_manager
   \<and> next_proc (wm (fst (call_tool quiet_call bogus_request dev0_server))) = 1
   \<and> events (wm (fst (call_tool quiet_call bogus_request dev0_server)))
       = events dev0_color @ [Kill 0 ''SIGTERM'']
   \<and> call_tool quiet_call modeless_request dev0_server =
     (dev0_server\<lparr>wm := stopWebcam ''dev0'' dev0_color\<rparr>,
      Inr [Text ''Failed to start webcam: Unknown mode: undefined''])
   \<and> call_tool quiet_call (bare_request ''start_webcam'') dev0_server =
     (dev0_server, Inl (Thrown no_params))"
proof -
  let ?a = "start_args ''dev0'' ''bogus'' ''x''"
  let ?m = "\<lparr>p_device = Some ''dev0'', p_mode = None, p_source = None, p_loop = None\<rparr>"
  have a: "tool bogus_request = ''start_webcam'' \<and> args bogus_request = Some ?a
           \<and> \<not> known_mode (p_mode ?a)"
    by (simp add: bogus_request_def webcam_request_def start_args_def known_mode_def
          valid_modes_def)
  have m: "tool modeless_request = ''start_webcam'' \<and> args modeless_request = Some ?m
           \<and> \<not> known_mode (p_mode ?m)"
    by (simp add: modeless_request_def webcam_request_def known_mode_def)
  have n: "tool (bare_request ''start_webcam'') = ''start_webcam''
           \<and> args (bare_request ''start_webcam'') = None"
    by (simp add: bare_request_def)
  note t1 = start_webcam_unknown_mode_stops_first[of bogus_request ?a quiet_call dev0_server,
              THEN conjunct1, THEN mp, OF a]
  note t2 = start_webcam_unknown_mode_stops_first[of modeless_request ?m quiet_call dev0_server,
              THEN conjunct1, THEN mp, OF m]
  note t3 = start_webcam_unknown_mode_stops_first[of "bare_request ''start_webcam''" ?a
              quiet_call dev0_server, THEN conjunct2, THEN mp, OF n]
  from t1 t2 t3 show ?thesis
    by (simp add: start_args_def or_default_def show_opt_def dev0_server_def
          dev0_color_fields stopWebcam_frame stopWebcam_events)
qed

text \<open>
  C3, the claim as stated, fails: \<open>dev0\<close> is streaming, and a \<open>start_webcam\<close> call on
  \<open>dev0\<close> with the unknown mode \<open>bogus\<close> sends \<open>SIGTERM\<close> to its process and removes
  it from the registry.
\<close>

theorem start_webcam_unknown_mode_kills_stream:
  "args bogus_request = Some (start_args ''dev0'' ''bogus'' ''x'')
   \<and> \<not> known_mode (p_mode (start_args ''dev0'' ''bogus'' ''x''))
   \<and> map_of (ffmpegProcesses (wm dev0_server)) ''dev0'' = Some 0
   \<and> \<not> killed (procs (wm dev0_server) 0)
   \<and> map_of (ffmpegProcesses (wm (fst (call_tool quiet_call bogus_request dev0_server))))
        ''dev0'' = None
   \<and> killed (procs (wm (fst (call_tool quiet_call bogus_request dev0_server))) 0)
   \<and> events (wm (fst (call_tool quiet_call bogus_request dev0_server)))
       = events (wm dev0_server) @ [Kill 0 ''SIGTERM'']"
  by (simp add: bogus_request_def webcam_request_def start_args_def known_mode_def
        valid_modes_def dev0_server_def dev0_color_fields call_tool_def startWebcam_any_def
        startWebcam_def mode_switch_def stopWebcam_def kill_def or_default_def Let_def)

text \<open>
  C1 (as the code has it). Calls of \<open>getBrowser\<close> with the same type and headless flag
  that run one after the other, each finished before the next begins: if the pool has
  no browser for the key and the first launch succeeds, that launch is the only one,
  the browser is stored under the key, and every call returns it; if the pool already
  has a browser for the key, every call returns it and the state does not change.
\<close>

theorem getBrowser_sequential_single_launch:
  "(map_of (browsers st) (resource_key t h) = None \<longrightarrow>
      snd (getBrowser_calls (None # errs) t h st)
        = replicate (Suc (length errs)) (Inr (Some (next_browser st)))
      \<and> launch_count (fst (getBrowser_calls (None # errs) t h st)) = Suc (launch_count st)
      \<and> map_of (browsers (fst (getBrowser_calls (None # errs) t h st))) (resource_key t h)
          = Some (next_browser st))
   \<and> (map_of (browsers st) (resource_key t h) = Some b \<longrightarrow>
      getBrowser_calls errs t h st = (st, replicate (length errs) (Inr (Some b))))"
proof (intro conjI impI)
  assume miss: "map_of (browsers st) (resource_key t h) = None"
  obtain s1 where first: "getBrowser None t h st = (s1, Inr (Some (next_browser st)))"
    and stored: "map_of (browsers s1) (resource_key t h) = Some (next_browser st)"
    and count: "launch_count s1 = Suc (launch_count st)"
    by (simp add: getBrowser_miss[OF miss] update_conv' launch_count_def)
  have all: "getBrowser_calls (None # errs) t h st
               = (s1, replicate (Suc (length errs)) (Inr (Some (next_browser st))))"
    by (simp add: first getBrowser_calls_hit[OF stored])
  show "snd (getBrowser_calls (None # errs) t h st)
        = replicate (Suc (length errs)) (Inr (Some (next_browser st)))"
    by (simp only: all snd_conv)
  show "launch_count (fst (getBrowser_calls (None # errs) t h st)) = Suc (launch_count st)"
    by (simp only: all fst_conv count)
  show "map_of (browsers (fst (getBrowser_calls (None # errs) t h st))) (resource_key t h)
          = Some (next_browser st)"
    by (simp only: all fst_conv stored)
next
  assume "map_of (browsers st) (resource_key t h) = Some b"
  then show "getBrowser_calls errs t h st = (st, replicate (length errs) (Inr (Some b)))"
    by (rule getBrowser_calls_hit)
qed

theorem getBrowser_sequential_single_launch_witness:
  "snd (getBrowser_calls [None, None, Some ''boom''] Chromium True new_browser_manager)
     = [Inr (Some 0), Inr (Some 0), Inr (Some 0)]
   \<and> launch_count (fst (getBrowser_calls [None, None, Some ''boom''] Chromium True new_browser_manager)) = 1
   \<and> getBrowser_calls [None, None] Chromium True one_browser
       = (one_browser, [Inr (Some 0), Inr (Some 0)])"
proof -
  have a: "map_of (browsers new_browser_manager) (resource_key Chromium True) = None"
    by (simp add: new_browser_manager_def)
  have b: "map_of (browsers one_browser) (resource_key Chromium True) = Some 0"
    by (simp add: one_browser_fields resource_key_def show_bool_def)
  note t1 = getBrowser_sequential_single_launch[of new_browser_manager Chromium True "[None, Some ''boom'']",
              THEN conjunct1, THEN mp, OF a]
  note t2 = getBrowser_sequential_single_launch[of one_browser Chromium True "[None, None]" 0,
              THEN conjunct2, THEN mp, OF b]
  from t1 t2 show ?thesis
    by (simp add: new_browser_manager_def launch_count_def)
qed

text \<open>
  C1, the claim as stated, fails for callers that overlap: two calls for
  \<open>chromium\<close>, headless, on an empty pool both find the key missing before either
  launch has settled. Two engines are launched, the callers get different browsers,
  and the second \<open>set\<close> replaces the first browser in the pool while it is still
  connected.
\<close>

theorem getBrowser_overlapping_calls_launch_twice:
  "launch_count (fst two_callers) = 2
   \<and> snd two_callers = (Inr (Some 0), Inr (Some 1))
   \<and> browsers (fst two_callers) = [(''chromium-true'', 1)]
   \<and> connected (bstore (fst two_callers) 0)"
  by (simp add: two_callers_def getBrowser_enter_def getBrowser_finish_def
        getBrowser_resume_def launch_def new_browser_manager_def resource_key_def
        show_bool_def launch_count_def Let_def)

text \<open>
  C6 (as the code has it). When the browser stored for a key has died, the next
  \<open>getBrowser\<close> for that key returns that same stored browser: the state is unchanged,
  the browser is still disconnected, and nothing is launched.
\<close>

theorem getBrowser_returns_dead_handle:
  assumes "map_of (browsers st) (resource_key t h) = Some b"
    and "\<not> connected (bstore st b)"
  shows "getBrowser err t h st = (st, Inr (Some b))
         \<and> \<not> connected (bstore (fst (getBrowser err t h st)) b)
         \<and> launch_count (fst (getBrowser err t h st)) = launch_count st"
  using assms by (simp add: getBrowser_hit)

theorem getBrowser_returns_dead_handle_witness:
  "getBrowser None Chromium True dead_pool = (dead_pool, Inr (Some 0))
   \<and> launch_count (fst (getBrowser None Chromium True dead_pool)) = 1"
proof -
  have a: "map_of (browsers dead_pool) (resource_key Chromium True) = Some 0"
    by (simp add: dead_pool_fields resource_key_def show_bool_def)
  have b: "\<not> connected (bstore dead_pool 0)" by (simp add: dead_pool_fields)
  from getBrowser_returns_dead_handle[OF a b, of None] show ?thesis
    by (simp add: launch_count_def dead_pool_fields)
qed

text \<open>
  C6, the claim as stated, fails: a chromium browser is launched and pooled, its process
  dies, and the next \<open>getBrowser\<close> returns the dead browser 0 without a new launch.
\<close>

theorem getBrowser_dead_handle_not_replaced:
  "connected (bstore one_browser 0)
   \<and> \<not> connected (bstore dead_pool 0)
   \<and> snd (getBrowser None Chromium True dead_pool) = Inr (Some 0)
   \<and> \<not> connected (bstore (fst (getBrowser None Chromium True dead_pool)) 0)
   \<and> launch_count (fst (getBrowser None Chromium True dead_pool)) = launch_count dead_pool"
  by (simp add: dead_pool_fields one_browser_fields getBrowser_def getBrowser_enter_def
        getBrowser_finish_def resource_key_def show_bool_def Let_def)

text \<open>
  What the six page-based tools do with their context. A call whose arguments parse,
  whose \<open>getBrowser\<close> yields a browser and whose \<open>newContext\<close> does not throw opens
  one new context on that browser. When the page operations run through, the context is
  closed before the response is returned, so the open contexts are those from before the
  call. When an exception leaves the handler, the new context stays open. In both cases
  the pool and the browsers are as \<open>getBrowser\<close> left them, and the webcam manager is
  untouched.
\<close>

lemma page_tool_context_lifecycle:
  assumes "tool req \<in> set page_tools" and "parsed req = Inr params"
    and "getBrowser (launch_error ce) (pp_browser params) (pp_headless params) (bm st)
           = (s1, Inr (Some b))"
    and "context_error ce = None"
  shows "(page_outcome ce = Inr result \<longrightarrow>
            snd (call_tool ce req st) = Inr result
          \<and> open_contexts (bm (fst (call_tool ce req st))) = open_contexts s1
          \<and> bevents (bm (fst (call_tool ce req st)))
              = bevents s1 @ [NewContext (next_context s1) b, CloseContext (next_context s1)])
       \<and> (page_outcome ce = Inl err \<longrightarrow>
            snd (call_tool ce req st) = Inl (Thrown err)
          \<and> open_contexts (bm (fst (call_tool ce req st))) = open_contexts s1 @ [next_context s1]
          \<and> bevents (bm (fst (call_tool ce req st)))
              = bevents s1 @ [NewContext (next_context s1) b])
       \<and> browsers (bm (fst (call_tool ce req st))) = browsers s1
       \<and> bstore (bm (fst (call_tool ce req st))) = bstore s1
       \<and> wm (fst (call_tool ce req st)) = wm st"
proof -
  obtain s2 where nc: "newContext b s1 = (s2, next_context s1)"
    and s2: "s2 = fst (newContext b s1)"
    by (simp add: newContext_def Let_def)
  have ok: "call_tool ce req st =
              (st\<lparr>bm := context_close (next_context s1) (fst (newContext b s1))\<rparr>, Inr result)"
    if "page_outcome ce = Inr result" for result
    using assms that
    by (simp add: call_tool_page page_handler_def page_call_def nc s2[symmetric])
  have bad: "call_tool ce req st = (st\<lparr>bm := fst (newContext b s1)\<rparr>, Inl (Thrown err))"
    if "page_outcome ce = Inl err" for err
    using assms that
    by (simp add: call_tool_page page_handler_def page_call_def nc s2[symmetric])
  have a: "page_outcome ce = Inr result \<longrightarrow>
            snd (call_tool ce req st) = Inr result
          \<and> open_contexts (bm (fst (call_tool ce req st))) = open_contexts s1
          \<and> bevents (bm (fst (call_tool ce req st)))
              = bevents s1 @ [NewContext (next_context s1) b, CloseContext (next_context s1)]"
    by (auto simp: ok open_contexts_close_new) (simp add: newContext_def context_close_def Let_def)
  have b: "page_outcome ce = Inl err \<longrightarrow>
            snd (call_tool ce req st) = Inl (Thrown err)
          \<and> open_contexts (bm (fst (call_tool ce req st))) = open_contexts s1 @ [next_context s1]
          \<and> bevents (bm (fst (call_tool ce req st)))
              = bevents s1 @ [NewContext (next_context s1) b]"
    by (auto simp: bad open_contexts_newContext) (simp add: newContext_def Let_def)
  have c: "browsers (bm (fst (call_tool ce req st))) = browsers s1
       \<and> bstore (bm (fst (call_tool ce req st))) = bstore s1
       \<and> wm (fst (call_tool ce req st)) = wm st"
  proof (cases "page_outcome ce")
    case (Inl e)
    then show ?thesis by (simp add: bad newContext_def Let_def)
  next
    case (Inr r)
    then show ?thesis by (simp add: ok newContext_def context_close_def Let_def)
  qed
  from a b c show ?thesis by blast
qed

lemma page_tool_context_lifecycle_example:
  "snd (call_tool quiet_call run_script_request (new_server [])) = Inr [Text ''ok'']
   \<and> open_contexts (bm (fst (call_tool quiet_call run_script_request (new_server [])))) = []
   \<and> bevents (bm (fst (call_tool quiet_call run_script_request (new_server []))))
       = [Launch Chromium True, NewContext 0 0, CloseContext 0]
   \<and> browsers (bm (fst (call_tool quiet_call run_script_request (new_server []))))
       = [(''chromium-true'', 0)]
   \<and> snd (call_tool failing_page run_script_request (new_server []))
       = Inl (Thrown ''TimeoutError: page.goto: Timeout'')
   \<and> browsers (bm (fst (call_tool failing_page run_script_request (new_server []))))
       = [(''chromium-true'', 0)]"
proof -
  have t: "tool run_script_request \<in> set page_tools"
    and p: "parsed run_script_request = Inr \<lparr>pp_browser = Chromium, pp_headless = True\<rparr>"
    by (simp_all add: run_script_request_def page_tools_def)
  have g: "getBrowser (launch_error quiet_call)
             (pp_browser \<lparr>pp_browser = Chromium, pp_headless = True\<rparr>)
             (pp_headless \<lparr>pp_browser = Chromium, pp_headless = True\<rparr>)
             (bm (new_server [])) = (one_browser, Inr (Some 0))"
    and g': "getBrowser (launch_error failing_page)
             (pp_browser \<lparr>pp_browser = Chromium, pp_headless = True\<rparr>)
             (pp_headless \<lparr>pp_browser = Chromium, pp_headless = True\<rparr>)
             (bm (new_server [])) = (one_browser, Inr (Some 0))"
    by (simp_all add: quiet_call_def failing_page_def new_server_def first_getBrowser)
  have c: "context_error quiet_call = None" and c': "context_error failing_page = None"
    by (simp_all add: quiet_call_def failing_page_def)
  have o: "page_outcome quiet_call = Inr [Text ''ok'']"
    and o': "page_outcome failing_page = Inl ''TimeoutError: page.goto: Timeout''"
    by (simp_all add: quiet_call_def failing_page_def)
  note good = page_tool_context_lifecycle[OF t p g c, of "[Text ''ok'']" "[]"]
  note bad = page_tool_context_lifecycle[OF t p g' c', of "[]" "''TimeoutError: page.goto: Timeout''"]
  from good bad o o' show ?thesis
    by (simp add: one_browser_fields open_contexts_def)
qed

text \<open>
  C7. Every page-based tool call should close its context before it returns, also when a
  page operation throws. The handlers close the context as their last statement on the
  way through and have no \<open>finally\<close>, so the code misses the throwing path: a
  \<open>run_script\<close> call on an empty pool whose navigation times out returns the error
  while context 0 is still open; a context was opened and none was closed. The pooled
  browser stays in the pool.
\<close>

theorem page_tool_leaves_context_open_on_throw:
  "tool run_script_request \<in> set page_tools
   \<and> snd (call_tool failing_page run_script_request (new_server []))
       = Inl (Thrown ''TimeoutError: page.goto: Timeout'')
   \<and> open_contexts (bm (fst (call_tool failing_page run_script_request (new_server [])))) = [0]
   \<and> bevents (bm (fst (call_tool failing_page run_script_request (new_server []))))
       = [Launch Chromium True, NewContext 0 0]
   \<and> browsers (bm (fst (call_tool failing_page run_script_request (new_server []))))
       = [(''chromium-true'', 0)]"
  by (simp add: run_script_request_def page_tools_def failing_page_def quiet_call_def
        new_server_def call_tool_def page_handler_def page_call_def first_getBrowser
        newContext_def one_browser_fields open_contexts_def Let_def)

text \<open>
  C8. When the shutdown handler completes, the browser pool is empty and the device
  registry is empty, every browser that was pooled has been closed and every process
  that was registered and still running has been sent \<open>SIGTERM\<close>, however many there
  were. The handler does complete when no \<open>browser.close()\<close> throws.
\<close>

theorem on_signal_drains_all:
  "(on_signal close_error st = (st', Inr ()) \<longrightarrow>
      browsers (bm st') = [] \<and> ffmpegProcesses (wm st') = []
      \<and> (\<forall>b \<in> snd ` set (browsers (bm st)). \<not> connected (bstore (bm st') b))
      \<and> (\<forall>p \<in> snd ` set (ffmpegProcesses (wm st)).
            \<not> exited (procs (wm st) p) \<longrightarrow> killed (procs (wm st') p)))
   \<and> ((\<forall>b \<in> snd ` set (browsers (bm st)). close_error b = None) \<longrightarrow>
        snd (on_signal close_error st) = Inr ())"
proof (intro conjI impI)
  assume fin: "on_signal close_error st = (st', Inr ())"
  obtain s1 r where ce: "close_each close_error (map snd (browsers (bm st))) (bm st) = (s1, r)"
    by (cases "close_each close_error (map snd (browsers (bm st))) (bm st)")
  from fin ce have r: "r = Inr ()"
    by (cases r) (simp_all add: on_signal_def browser_cleanup_def)
  from fin ce r have st': "st' = st\<lparr>bm := s1\<lparr>browsers := []\<rparr>, wm := cleanup (wm st)\<rparr>"
    by (simp add: on_signal_def browser_cleanup_def)
  show "browsers (bm st') = []" by (simp add: st')
  show "ffmpegProcesses (wm st') = []" by (simp add: st' cleanup_state)
  show "\<forall>b \<in> snd ` set (browsers (bm st)). \<not> connected (bstore (bm st') b)"
    using close_each_closes[OF ce[unfolded r]] by (simp add: st')
  show "\<forall>p \<in> snd ` set (ffmpegProcesses (wm st)).
          \<not> exited (procs (wm st) p) \<longrightarrow> killed (procs (wm st') p)"
    by (simp add: st' cleanup_state)
next
  assume "\<forall>b \<in> snd ` set (browsers (bm st)). close_error b = None"
  then have "\<forall>b \<in> set (map snd (browsers (bm st))). close_error b = None" by simp
  from close_each_completes[OF this, of "bm st"]
  obtain s1 where "close_each close_error (map snd (browsers (bm st))) (bm st) = (s1, Inr ())"
    by (cases "close_each close_error (map snd (browsers (bm st))) (bm st)") simp
  then show "snd (on_signal close_error st) = Inr ()"
    by (simp add: on_signal_def browser_cleanup_def)
qed

theorem on_signal_drains_all_witness:
  "on_signal closes_fine busy_server =
     (busy_server\<lparr>bm := (browser_close 0 one_browser)\<lparr>browsers := []\<rparr>,
                  wm := cleanup dev0_color\<rparr>, Inr ())
   \<and> browsers (bm busy_server) = [(''chromium-true'', 0)]
   \<and> ffmpegProcesses (wm busy_server) = [(''dev0'', 0)]
   \<and> browsers (bm (fst (on_signal closes_fine busy_server))) = []
   \<and> ffmpegProcesses (wm (fst (on_signal closes_fine busy_server))) = []
   \<and> \<not> connected (bstore (bm (fst (on_signal closes_fine busy_server))) 0)
   \<and> \<not> exited (procs (wm busy_server) 0)
   \<and> killed (procs (wm (fst (on_signal closes_fine busy_server))) 0)
   \<and> snd (on_signal closes_fine busy_server) = Inr ()"
proof -
  note t = on_signal_drains_all[of closes_fine busy_server
             "busy_server\<lparr>bm := (browser_close 0 one_browser)\<lparr>browsers := []\<rparr>,
                          wm := cleanup dev0_color\<rparr>"]
  have pre: "browsers (bm busy_server) = [(''chromium-true'', 0)]"
            "ffmpegProcesses (wm busy_server) = [(''dev0'', 0)]"
            "\<not> exited (procs (wm busy_server) 0)"
    by (simp_all add: busy_server_def one_browser_fields dev0_color_fields)
  have fine: "\<forall>b \<in> snd ` set (browsers (bm busy_server)). closes_fine b = None"
    by (simp add: closes_fine_def)
  from t[THEN conjunct1, THEN mp, OF busy_shutdown] t[THEN conjunct2, THEN mp, OF fine]
       pre busy_shutdown
  show ?thesis by simp
qed

end
